theory Spec2Isabelle
  imports Complex_Main
begin

section \<open>The VR session of intern/vamr/intern/VAMR_Session.cc\<close>

text \<open>
  A shallow embedding of \<^verbatim>\<open>VAMR_Session\<close>: the session object is a record that is passed
  through every member function and returned updated; a C++ exception is the \<open>Inl\<close> branch of
  a sum; every call that leaves the program (an OpenXR runtime function, a callback of the
  context, a method of the graphics binding with an effect) is appended to the field
  \<open>calls\<close> of the session, oldest first. What the OpenXR runtime answers is not decided by
  the program: it is a parameter \<open>rt\<close>, one oracle per runtime function, asked at the
  number of calls made so far, so that two calls of the same function may be answered
  differently. Debug-only \<^verbatim>\<open>assert\<close>s are not part of the model (release build); reading a
  vector out of range or through a null pointer is the outcome \<open>Undefined_*\<close>. A runtime
  function that fails leaves its output parameters as they were. The line that
  \<^verbatim>\<open>print_debug_timings\<close> prints is the call \<open>Printf\<close> with the three numbers it formats.
  The arithmetic of \<^verbatim>\<open>double\<close> is not decided here either: the sum, the quotient and the
  conversion of clock ticks that the machine computes are fields of \<open>rt\<close> too.
\<close>

subsection \<open>OpenXR values\<close>

type_synonym XrResult = int

definition XR_FAILED :: "XrResult \<Rightarrow> bool" where
  \<comment> \<open>the OpenXR macro: a negative result code is a failure\<close>
  "XR_FAILED r \<longleftrightarrow> r < 0"

abbreviation (input) XR_SUCCESS :: XrResult where
  "XR_SUCCESS \<equiv> 0"

text \<open>Handles and pointers are numbers; \<open>0\<close> is \<^verbatim>\<open>XR_NULL_HANDLE\<close> and \<^verbatim>\<open>nullptr\<close>.\<close>

type_synonym handle = nat

abbreviation (input) XR_NULL_HANDLE :: handle where
  "XR_NULL_HANDLE \<equiv> 0"

abbreviation (input) nullptr :: handle where
  "nullptr \<equiv> 0"

datatype XrSessionState =
    XR_SESSION_STATE_UNKNOWN
  | XR_SESSION_STATE_IDLE
  | XR_SESSION_STATE_READY
  | XR_SESSION_STATE_SYNCHRONIZED
  | XR_SESSION_STATE_VISIBLE
  | XR_SESSION_STATE_FOCUSED
  | XR_SESSION_STATE_STOPPING
  | XR_SESSION_STATE_LOSS_PENDING
  | XR_SESSION_STATE_EXITING

record XrEventDataSessionStateChanged =
  ev_session :: handle
  ev_state :: XrSessionState

record XrFrameState =
  predictedDisplayTime :: int
  shouldRender :: bool

record XrViewConfigurationView =
  recommendedImageRectWidth :: nat
  recommendedImageRectHeight :: nat
  recommendedSwapchainSampleCount :: nat

text \<open>A pose is (orientation x y z w, position x y z); a field of view is
  (left, right, up, down). These \<^verbatim>\<open>float\<close>s are only copied, never computed with, and
  are given as the \<open>real\<close> they denote.\<close>

type_synonym XrPosef = "(real \<times> real \<times> real \<times> real) \<times> (real \<times> real \<times> real)"
type_synonym XrFovf = "real \<times> real \<times> real \<times> real"

record XrView =
  pose :: XrPosef
  fov :: XrFovf

text \<open>
  A \<^verbatim>\<open>double\<close>: a finite value, given as the real number it denotes, an infinity or
  not-a-number. What the machine's addition and division of doubles give, rounding
  included, and how it converts a difference of two time points of the clock (a number of
  ticks) to milliseconds, is \<open>arithmetic\<close>. Time points are integers, the ticks of the clock
  since its epoch, which stay far below the 64 bits of their representation.
\<close>

datatype double = Finite real | PosInf | NegInf | NaN

record arithmetic =
  d_add :: "double \<Rightarrow> double \<Rightarrow> double"
  d_div :: "double \<Rightarrow> double \<Rightarrow> double"
  d_ms_of_ticks :: "int \<Rightarrow> double"

definition int32_of_uint32 :: "nat \<Rightarrow> int" where
  \<comment> \<open>a \<^verbatim>\<open>uint32_t\<close> assigned to an \<^verbatim>\<open>int32_t\<close>: values from \<open>2 ^ 31\<close> on wrap around\<close>
  "int32_of_uint32 n =
     (if n mod 2 ^ 32 < 2 ^ 31 then int (n mod 2 ^ 32) else int (n mod 2 ^ 32) - 2 ^ 32)"

record XrSwapchainCreateInfo =
  usageFlags :: nat
  format :: int
  sampleCount :: nat
  width :: nat
  height :: nat
  faceCount :: nat
  arraySize :: nat
  mipCount :: nat

record XrCompositionLayerProjectionView =
  pv_pose :: XrPosef
  pv_fov :: XrFovf
  pv_swapchain :: handle
  pv_offset :: "int \<times> int"
  pv_extent :: "int \<times> int"

record XrCompositionLayerProjection =
  layer_space :: handle
  layer_views :: "XrCompositionLayerProjectionView list"

subsection \<open>Exceptions and undefined behaviour\<close>

text \<open>
  Modelled from the spec: the macros \<^verbatim>\<open>THROW_XR\<close>, \<^verbatim>\<open>CHECK_XR\<close> and \<^verbatim>\<open>CHECK_XR_ASSERT\<close> are
  defined in VAMR_intern.h, which is not among the sources. By the specification each error
  "wraps a runtime call failure with a fixed descriptive message", and the failures of the
  destroy calls "are asserted in debug builds but do not additionally throw". So
  \<^verbatim>\<open>CHECK_XR(call, message)\<close> throws when \<open>XR_FAILED\<close> holds of the result of the call, and
  \<^verbatim>\<open>CHECK_XR_ASSERT(call)\<close> makes the call and does not read its result. There is one
  constructor per throwing place, named after the error taxonomy of the specification, and
  \<open>what\<close> gives the message of the source.
\<close>

datatype error =
    ConfigurationError_NoBindFn
  | RuntimeQueryError
  | ConfigurationError_NoContext
  | CapabilityError string
  | SessionCreateError
  | ReferenceSpaceError
  | SessionEndError
  | SessionBeginError
  | SwapchainImageCountError
  | SwapchainImagesError
  | FormatCountError
  | FormatEnumerationError
  | FormatNegotiationError
  | SwapchainCreateError
  | ViewConfigCountError
  | ViewConfigError
  | FrameSyncError
  | FrameBeginError
  | FrameSubmitError
  | SwapchainAcquireError
  | SwapchainWaitError
  | SwapchainReleaseError
  | ViewLocateError
  | Undefined_OutOfBounds
  | Undefined_NullDereference

fun what :: "error \<Rightarrow> string" where
  "what ConfigurationError_NoBindFn = ''Invalid API usage: No way to bind graphics context to the XR session. Call VAMR_GraphicsContextBindFuncs() with valid parameters before starting the session (through VAMR_SessionStart()).''"
| "what RuntimeQueryError = ''Failed to get device information. Is a device plugged in?''"
| "what ConfigurationError_NoContext = ''Invalid API usage: No graphics context returned through the callback set with VAMR_GraphicsContextBindFuncs(). This is required for session starting (through VAMR_SessionStart()).''"
| "what (CapabilityError requirement_str) = ''Available graphics context version does not meet the following requirements: '' @ requirement_str"
| "what SessionCreateError = ''Failed to create VR session. The OpenXR runtime may have additional requirements for the graphics driver that are not met. Other causes are possible too however.'' @ [CHR 0x0A] @ ''Tip: The --debug-xr command line option for Blender might allow the runtime to output detailed error information to the command line.''"
| "what ReferenceSpaceError = ''Failed to create reference space.''"
| "what SessionEndError = ''Failed to cleanly end the VR session.''"
| "what SessionBeginError = ''Failed to cleanly begin the VR session.''"
| "what SwapchainImageCountError = ''Failed to get count of swapchain images to create for the VR session.''"
| "what SwapchainImagesError = ''Failed to create swapchain images for the VR session.''"
| "what FormatCountError = ''Failed to get count of swapchain image formats.''"
| "what FormatEnumerationError = ''Failed to get swapchain image formats.''"
| "what FormatNegotiationError = ''Error: No format matching OpenXR runtime supported swapchain formats found.''"
| "what SwapchainCreateError = ''Failed to create OpenXR swapchain.''"
| "what ViewConfigCountError = ''Failed to get count of view configurations.''"
| "what ViewConfigError = ''Failed to get count of view configurations.''"
| "what FrameSyncError = ''Failed to synchronize frame rates between Blender and the device.''"
| "what FrameBeginError = ''Failed to submit frame rendering start state.''"
| "what FrameSubmitError = ''Failed to submit rendered frame.''"
| "what SwapchainAcquireError = ''Failed to acquire swapchain image for the VR session.''"
| "what SwapchainWaitError = ''Failed to acquire swapchain image for the VR session.''"
| "what SwapchainReleaseError = ''Failed to release swapchain image used to submit VR session frame.''"
| "what ViewLocateError = ''Failed to query frame view and projection state.''"
| "what Undefined_OutOfBounds = ''''"
| "what Undefined_NullDereference = ''''"

datatype eLifeExpectancy = SESSION_KEEP_ALIVE | SESSION_DESTROY

subsection \<open>The session data\<close>

record OpenXRSessionData =
  system_id :: nat
  session :: handle
  session_state :: XrSessionState
  reference_space :: handle
  views :: "XrView list"
  swapchains :: "handle list"
  swapchain_images :: "(handle \<times> handle list) list"
  swapchain_image_width :: int
  swapchain_image_height :: int

record VAMR_DrawInfo =
  frame_state :: XrFrameState
  frame_begin_time :: int
  last_frame_times :: "double list"

record VAMR_DrawViewInfo =
  ofsx :: int
  ofsy :: int
  dv_width :: int
  dv_height :: int
  pose_position :: "real \<times> real \<times> real"
  pose_orientation_quat :: "real \<times> real \<times> real \<times> real"
  fov_angles :: "real \<times> real \<times> real \<times> real"
  expects_srgb_buffer :: bool

text \<open>
  The interface \<^verbatim>\<open>VAMR_IGraphicsBinding\<close> is declared outside the sources at hand; the
  session uses it through these methods only. \<open>chooseSwapchainFormat\<close> returns \<open>None\<close> for
  the C++ \<^verbatim>\<open>false\<close> and \<open>Some chosen\<close> for \<^verbatim>\<open>true\<close> with the out-parameter set.
  \<open>initFromGhostContext\<close> and \<open>submitToSwapchain\<close> return nothing and are recorded as calls.
\<close>

record VAMR_IGraphicsBinding =
  checkVersionRequirements :: "bool \<times> string"
  chooseSwapchainFormat :: "int list \<Rightarrow> int option"
  createSwapchainImages :: "nat \<Rightarrow> handle list"

text \<open>Every call that leaves the program.\<close>

datatype call =
    GpuCtxBind
  | GpuCtxUnbind handle
  | InitFromGhostContext handle
  | XrGetSystem
  | XrCreateSession
  | XrDestroySession handle
  | XrCreateReferenceSpace handle
  | XrDestroySpace handle
  | XrRequestExitSession handle
  | XrBeginSession handle
  | XrEndSession handle
  | XrEnumerateViewConfigurationViews nat
  | XrEnumerateSwapchainFormats handle nat
  | XrEnumerateSwapchainImages handle nat
  | XrCreateSwapchain handle XrSwapchainCreateInfo
  | XrDestroySwapchain handle
  | XrWaitFrame handle
  | XrBeginFrame handle
  | XrEndFrame handle int nat
  | XrLocateViews handle nat
  | XrAcquireSwapchainImage handle
  | XrWaitSwapchainImage handle
  | XrReleaseSwapchainImage handle
  | DrawViewFn VAMR_DrawViewInfo
  | SubmitToSwapchain handle
  | Printf double double double

record VAMR_Session =
  m_oxr :: OpenXRSessionData
  m_gpu_ctx :: handle
  m_gpu_binding :: "VAMR_IGraphicsBinding option"
  m_draw_info :: "VAMR_DrawInfo option"
  calls :: "call list"

text \<open>
  The context \<^verbatim>\<open>m_context\<close>: the custom functions (a null function pointer is \<open>None\<close>
  or \<open>False\<close>), the graphics binding type and the binding that
  \<^verbatim>\<open>VAMR_GraphicsBindingCreateFromType\<close> makes for it, the debug flag and the runtime
  identity (\<open>True\<close> when it is \<^verbatim>\<open>OPENXR_RUNTIME_WMR\<close>).
\<close>

record VAMR_Context =
  gpu_ctx_bind_fn :: "(nat \<Rightarrow> handle) option"
  gpu_ctx_unbind_fn :: bool
  getGraphicsBindingType :: nat
  VAMR_GraphicsBindingCreateFromType :: "nat \<Rightarrow> VAMR_IGraphicsBinding"
  isDebugTimeMode :: bool
  runtime_is_WMR :: bool

text \<open>
  The answers of the OpenXR runtime and of the clock (in ticks), each asked at the number of calls
  made before. An enumeration answers with its result, the count it writes and the
  elements it would write into a buffer that is large enough.
\<close>

record runtime =
  xrGetSystem :: "nat \<Rightarrow> XrResult \<times> nat"
  xrCreateSession :: "nat \<Rightarrow> XrResult \<times> handle"
  xrCreateReferenceSpace :: "nat \<Rightarrow> XrResult \<times> handle"
  xrBeginSession :: "nat \<Rightarrow> XrResult"
  xrEndSession :: "nat \<Rightarrow> XrResult"
  xrEnumerateViewConfigurationViews :: "nat \<Rightarrow> XrResult \<times> nat \<times> XrViewConfigurationView list"
  xrEnumerateSwapchainFormats :: "nat \<Rightarrow> XrResult \<times> nat \<times> int list"
  xrEnumerateSwapchainImages :: "nat \<Rightarrow> XrResult \<times> nat"
  xrCreateSwapchain :: "nat \<Rightarrow> XrResult \<times> handle"
  xrWaitFrame :: "nat \<Rightarrow> XrResult \<times> XrFrameState"
  xrBeginFrame :: "nat \<Rightarrow> XrResult"
  xrEndFrame :: "nat \<Rightarrow> XrResult"
  xrLocateViews :: "nat \<Rightarrow> XrResult \<times> nat \<times> XrView list"
  xrAcquireSwapchainImage :: "nat \<Rightarrow> XrResult \<times> nat"
  xrWaitSwapchainImage :: "nat \<Rightarrow> XrResult"
  xrReleaseSwapchainImage :: "nat \<Rightarrow> XrResult"
  clock_now :: "nat \<Rightarrow> int"
  double_arithmetic :: arithmetic

definition log_call :: "call \<Rightarrow> VAMR_Session \<Rightarrow> VAMR_Session" where
  \<comment> \<open>record one call\<close>
  "log_call c s = s\<lparr>calls := calls s @ [c]\<rparr>"

definition now :: "VAMR_Session \<Rightarrow> nat" where
  \<comment> \<open>the number of calls made so far\<close>
  "now s = length (calls s)"

subsection \<open>Create, initialize and destruct\<close>

definition OpenXRSessionData_new :: OpenXRSessionData where
  \<comment> \<open>\<^verbatim>\<open>new OpenXRSessionData()\<close>: the member initializers, everything else zero\<close>
  "OpenXRSessionData_new =
     \<lparr>system_id = 0, session = XR_NULL_HANDLE, session_state = XR_SESSION_STATE_UNKNOWN,
      reference_space = XR_NULL_HANDLE, views = [], swapchains = [], swapchain_images = [],
      swapchain_image_width = 0, swapchain_image_height = 0\<rparr>"

definition VAMR_Session_new :: VAMR_Session where
  "VAMR_Session_new =
     \<lparr>m_oxr = OpenXRSessionData_new, m_gpu_ctx = nullptr, m_gpu_binding = None,
      m_draw_info = None, calls = []\<rparr>"

definition bindGraphicsContext :: "VAMR_Context \<Rightarrow> VAMR_Session \<Rightarrow> (error + unit) \<times> VAMR_Session" where
  "bindGraphicsContext ctx s =
     (case gpu_ctx_bind_fn ctx of
        None \<Rightarrow> (Inl Undefined_NullDereference, s)
      | Some bind_fn \<Rightarrow>
          (Inr (), (log_call GpuCtxBind s)\<lparr>m_gpu_ctx := bind_fn (getGraphicsBindingType ctx)\<rparr>))"

definition unbindGraphicsContext :: "VAMR_Context \<Rightarrow> VAMR_Session \<Rightarrow> VAMR_Session" where
  "unbindGraphicsContext ctx s =
     (let s1 = (if gpu_ctx_unbind_fn ctx then log_call (GpuCtxUnbind (m_gpu_ctx s)) s else s)
      in s1\<lparr>m_gpu_ctx := nullptr\<rparr>)"

definition destructor :: "VAMR_Context \<Rightarrow> VAMR_Session \<Rightarrow> VAMR_Session" where
  \<comment> \<open>\<^verbatim>\<open>~VAMR_Session\<close>; \<^verbatim>\<open>CHECK_XR_ASSERT\<close> only asserts, so the results are not read\<close>
  "destructor ctx s =
     (let s1 = unbindGraphicsContext ctx s;
          s2 = s1\<lparr>calls := calls s1 @ map XrDestroySwapchain (swapchains (m_oxr s1))\<rparr>;
          s3 = s2\<lparr>m_oxr := (m_oxr s2)\<lparr>swapchains := []\<rparr>\<rparr>;
          s4 = (if reference_space (m_oxr s3) \<noteq> XR_NULL_HANDLE
                then log_call (XrDestroySpace (reference_space (m_oxr s3))) s3 else s3);
          s5 = (if session (m_oxr s4) \<noteq> XR_NULL_HANDLE
                then log_call (XrDestroySession (session (m_oxr s4))) s4 else s4)
      in s5\<lparr>m_oxr := (m_oxr s5)\<lparr>session := XR_NULL_HANDLE,
                                    session_state := XR_SESSION_STATE_UNKNOWN\<rparr>\<rparr>)"

definition initSystem :: "runtime \<Rightarrow> VAMR_Session \<Rightarrow> (error + unit) \<times> VAMR_Session" where
  "initSystem rt s =
     (let (r, sid) = xrGetSystem rt (now s); s1 = log_call XrGetSystem s
      in if XR_FAILED r then (Inl RuntimeQueryError, s1)
         else (Inr (), s1\<lparr>m_oxr := (m_oxr s1)\<lparr>system_id := sid\<rparr>\<rparr>))"

subsection \<open>State management\<close>

definition create_reference_space :: "runtime \<Rightarrow> VAMR_Session \<Rightarrow> (error + unit) \<times> VAMR_Session" where
  \<comment> \<open>the base pose is not used; the handle is written on success only\<close>
  "create_reference_space rt s =
     (let (r, space) = xrCreateReferenceSpace rt (now s);
          s1 = log_call (XrCreateReferenceSpace (session (m_oxr s))) s
      in if XR_FAILED r then (Inl ReferenceSpaceError, s1)
         else (Inr (), s1\<lparr>m_oxr := (m_oxr s1)\<lparr>reference_space := space\<rparr>\<rparr>))"

definition requestEnd :: "VAMR_Session \<Rightarrow> VAMR_Session" where
  "requestEnd s = log_call (XrRequestExitSession (session (m_oxr s))) s"

definition end_session :: "VAMR_Context \<Rightarrow> runtime \<Rightarrow> VAMR_Session \<Rightarrow> (error + unit) \<times> VAMR_Session" where
  \<comment> \<open>\<^verbatim>\<open>VAMR_Session::end\<close>\<close>
  "end_session ctx rt s =
     (let r = xrEndSession rt (now s); s1 = log_call (XrEndSession (session (m_oxr s))) s
      in if XR_FAILED r then (Inl SessionEndError, s1)
         else (Inr (), (unbindGraphicsContext ctx s1)\<lparr>m_draw_info := None\<rparr>))"

definition handleStateChangeEvent ::
  "VAMR_Context \<Rightarrow> runtime \<Rightarrow> XrEventDataSessionStateChanged \<Rightarrow> VAMR_Session
     \<Rightarrow> (error + eLifeExpectancy) \<times> VAMR_Session" where
  "handleStateChangeEvent ctx rt lifecycle s =
     (let s1 = s\<lparr>m_oxr := (m_oxr s)\<lparr>session_state := ev_state lifecycle\<rparr>\<rparr>
      in case ev_state lifecycle of
           XR_SESSION_STATE_READY \<Rightarrow>
             (let r = xrBeginSession rt (now s1);
                  s2 = log_call (XrBeginSession (session (m_oxr s1))) s1
              in if XR_FAILED r then (Inl SessionBeginError, s2)
                 else (Inr SESSION_KEEP_ALIVE, s2))
         | XR_SESSION_STATE_STOPPING \<Rightarrow>
             (case end_session ctx rt s1 of
                (Inl e, s2) \<Rightarrow> (Inl e, s2)
              | (Inr _, s2) \<Rightarrow> (Inr SESSION_KEEP_ALIVE, s2))
         | XR_SESSION_STATE_EXITING \<Rightarrow> (Inr SESSION_DESTROY, s1)
         | XR_SESSION_STATE_LOSS_PENDING \<Rightarrow> (Inr SESSION_DESTROY, s1)
         | _ \<Rightarrow> (Inr SESSION_KEEP_ALIVE, s1))"

subsection \<open>State queries\<close>

definition isRunning :: "VAMR_Session \<Rightarrow> bool" where
  "isRunning s =
     (if session (m_oxr s) = XR_NULL_HANDLE then False
      else case session_state (m_oxr s) of
             XR_SESSION_STATE_READY \<Rightarrow> True
           | XR_SESSION_STATE_SYNCHRONIZED \<Rightarrow> True
           | XR_SESSION_STATE_VISIBLE \<Rightarrow> True
           | XR_SESSION_STATE_FOCUSED \<Rightarrow> True
           | _ \<Rightarrow> False)"

subsection \<open>Drawing\<close>

definition enumerate_into :: "'a list \<Rightarrow> 'a list \<Rightarrow> 'a list" where
  \<comment> \<open>the runtime writes its elements into a buffer: never more than the buffer holds,
      and what it does not write keeps its value\<close>
  "enumerate_into buffer elems = take (length buffer) elems @ drop (length elems) buffer"

definition resize :: "'a list \<Rightarrow> nat \<Rightarrow> 'a \<Rightarrow> 'a list" where
  \<comment> \<open>\<^verbatim>\<open>std::vector::resize(n, value)\<close>\<close>
  "resize xs n v = take n xs @ replicate (n - length xs) v"

definition map_insert :: "'k \<Rightarrow> 'v \<Rightarrow> ('k \<times> 'v) list \<Rightarrow> ('k \<times> 'v) list" where
  \<comment> \<open>\<^verbatim>\<open>std::map::insert\<close>: a key that is present keeps its value\<close>
  "map_insert k v m = (if map_of m k = None then m @ [(k, v)] else m)"

definition swapchain_images_create ::
  "runtime \<Rightarrow> handle \<Rightarrow> VAMR_IGraphicsBinding option \<Rightarrow> call list
     \<Rightarrow> (error + handle list) \<times> call list" where
  "swapchain_images_create rt swapchain gpu_binding tr =
     (let (r1, image_count) = xrEnumerateSwapchainImages rt (length tr);
          tr1 = tr @ [XrEnumerateSwapchainImages swapchain 0]
      in if XR_FAILED r1 then (Inl SwapchainImageCountError, tr1)
         else case gpu_binding of
           None \<Rightarrow> (Inl Undefined_NullDereference, tr1)
         | Some binding \<Rightarrow>
             (let images = createSwapchainImages binding image_count
              in if images = [] then (Inl Undefined_OutOfBounds, tr1)
                 else (let (r2, image_count2) = xrEnumerateSwapchainImages rt (length tr1);
                           tr2 = tr1 @ [XrEnumerateSwapchainImages swapchain (length images)]
                       in if XR_FAILED r2 then (Inl SwapchainImagesError, tr2)
                          else (Inr images, tr2))))"

definition XR_SWAPCHAIN_USAGE_COLOR_ATTACHMENT_BIT :: nat where
  "XR_SWAPCHAIN_USAGE_COLOR_ATTACHMENT_BIT = 1"

definition XR_SWAPCHAIN_USAGE_SAMPLED_BIT :: nat where
  "XR_SWAPCHAIN_USAGE_SAMPLED_BIT = 32"

definition swapchain_create ::
  "runtime \<Rightarrow> handle \<Rightarrow> VAMR_IGraphicsBinding option \<Rightarrow> XrViewConfigurationView \<Rightarrow> call list
     \<Rightarrow> (error + handle) \<times> call list" where
  \<comment> \<open>the two usage bits are disjoint, so their bitwise or is their sum\<close>
  "swapchain_create rt sess gpu_binding xr_view tr =
     (let (r1, format_count, _) = xrEnumerateSwapchainFormats rt (length tr);
          tr1 = tr @ [XrEnumerateSwapchainFormats sess 0]
      in if XR_FAILED r1 then (Inl FormatCountError, tr1)
         else
           (let (r2, format_count2, formats) = xrEnumerateSwapchainFormats rt (length tr1);
                tr2 = tr1 @ [XrEnumerateSwapchainFormats sess format_count];
                swapchain_formats = enumerate_into (replicate format_count 0) formats
            in if XR_FAILED r2 then (Inl FormatEnumerationError, tr2)
               else case gpu_binding of
                 None \<Rightarrow> (Inl Undefined_NullDereference, tr2)
               | Some binding \<Rightarrow>
                   (case chooseSwapchainFormat binding swapchain_formats of
                      None \<Rightarrow> (Inl FormatNegotiationError, tr2)
                    | Some chosen_format \<Rightarrow>
                        (let create_info =
                               \<lparr>usageFlags = XR_SWAPCHAIN_USAGE_SAMPLED_BIT
                                              + XR_SWAPCHAIN_USAGE_COLOR_ATTACHMENT_BIT,
                                format = chosen_format,
                                sampleCount = recommendedSwapchainSampleCount xr_view,
                                width = recommendedImageRectWidth xr_view,
                                height = recommendedImageRectHeight xr_view,
                                faceCount = 1, arraySize = 1, mipCount = 1\<rparr>;
                             (r3, swapchain) = xrCreateSwapchain rt (length tr2);
                             tr3 = tr2 @ [XrCreateSwapchain sess create_info]
                         in if XR_FAILED r3 then (Inl SwapchainCreateError, tr3)
                            else (Inr swapchain, tr3)))))"

text \<open>
  Modelled from the spec: \<^verbatim>\<open>unique_oxr_ptr\<close> is declared in VAMR_intern.h, which is not among
  the sources. It is the "scoped/guarded construction that auto-destroys on early return":
  in the loop of \<^verbatim>\<open>prepareDrawing\<close> over the view configurations, below, the swapchain is
  held by a \<^verbatim>\<open>unique_oxr_ptr\<close> until it is released at the end of the iteration, and when
  the image creation throws, the swapchain it holds is destroyed, if it holds one.
\<close>

fun prepare_swapchains ::
  "runtime \<Rightarrow> XrViewConfigurationView list \<Rightarrow> VAMR_Session \<Rightarrow> (error + unit) \<times> VAMR_Session" where
  "prepare_swapchains rt [] s = (Inr (), s)"
| "prepare_swapchains rt (view # view_configs) s =
     (case swapchain_create rt (session (m_oxr s)) (m_gpu_binding s) view (calls s) of
        (Inl e, tr) \<Rightarrow> (Inl e, s\<lparr>calls := tr\<rparr>)
      | (Inr swapchain, tr) \<Rightarrow>
          (case swapchain_images_create rt swapchain (m_gpu_binding s) tr of
             (Inl e, tr') \<Rightarrow>
               (Inl e, s\<lparr>calls := tr' @ (if swapchain \<noteq> XR_NULL_HANDLE
                                           then [XrDestroySwapchain swapchain] else [])\<rparr>)
           | (Inr images, tr') \<Rightarrow>
               prepare_swapchains rt view_configs
                 (s\<lparr>calls := tr',
                    m_oxr := (m_oxr s)
                      \<lparr>swapchain_image_width := int32_of_uint32 (recommendedImageRectWidth view),
                       swapchain_image_height := int32_of_uint32 (recommendedImageRectHeight view),
                       swapchains := swapchains (m_oxr s) @ [swapchain],
                       swapchain_images := map_insert swapchain images (swapchain_images (m_oxr s))\<rparr>\<rparr>)))"

definition XrViewConfigurationView_init :: XrViewConfigurationView where
  "XrViewConfigurationView_init =
     \<lparr>recommendedImageRectWidth = 0, recommendedImageRectHeight = 0,
      recommendedSwapchainSampleCount = 0\<rparr>"

definition XrView_init :: XrView where
  "XrView_init = \<lparr>pose = ((0, 0, 0, 0), (0, 0, 0)), fov = (0, 0, 0, 0)\<rparr>"

definition VAMR_DrawInfo_new :: VAMR_DrawInfo where
  "VAMR_DrawInfo_new =
     \<lparr>frame_state = \<lparr>predictedDisplayTime = 0, shouldRender = False\<rparr>,
      frame_begin_time = 0, last_frame_times = []\<rparr>"

definition prepareDrawing :: "runtime \<Rightarrow> VAMR_Session \<Rightarrow> (error + unit) \<times> VAMR_Session" where
  "prepareDrawing rt s =
     (let (r1, view_count, _) = xrEnumerateViewConfigurationViews rt (now s);
          s1 = log_call (XrEnumerateViewConfigurationViews 0) s
      in if XR_FAILED r1 then (Inl ViewConfigCountError, s1)
         else
           (let (r2, view_count2, configs) = xrEnumerateViewConfigurationViews rt (now s1);
                s2 = log_call (XrEnumerateViewConfigurationViews view_count) s1;
                view_configs =
                  enumerate_into (replicate view_count XrViewConfigurationView_init) configs
            in if XR_FAILED r2 then (Inl ViewConfigError, s2)
               else case prepare_swapchains rt view_configs s2 of
                 (Inl e, s3) \<Rightarrow> (Inl e, s3)
               | (Inr _, s3) \<Rightarrow>
                   (Inr (),
                    s3\<lparr>m_oxr := (m_oxr s3)
                         \<lparr>views := resize (views (m_oxr s3)) view_count2 XrView_init\<rparr>,
                       m_draw_info := Some VAMR_DrawInfo_new\<rparr>)))"

definition start :: "VAMR_Context \<Rightarrow> runtime \<Rightarrow> VAMR_Session \<Rightarrow> (error + unit) \<times> VAMR_Session" where
  \<comment> \<open>the begin info carries the base pose only, which \<open>create_reference_space\<close> ignores\<close>
  "start ctx rt s =
     (if gpu_ctx_bind_fn ctx = None then (Inl ConfigurationError_NoBindFn, s)
      else case initSystem rt s of
        (Inl e, s1) \<Rightarrow> (Inl e, s1)
      | (Inr _, s1) \<Rightarrow>
          (case bindGraphicsContext ctx s1 of
             (Inl e, s2) \<Rightarrow> (Inl e, s2)
           | (Inr _, s2) \<Rightarrow>
               if m_gpu_ctx s2 = nullptr then (Inl ConfigurationError_NoContext, s2)
               else
                 (let binding = VAMR_GraphicsBindingCreateFromType ctx (getGraphicsBindingType ctx);
                      s3 = s2\<lparr>m_gpu_binding := Some binding\<rparr>;
                      (ok, requirement_str) = checkVersionRequirements binding
                  in if \<not> ok then (Inl (CapabilityError requirement_str), s3)
                     else
                       (let s4 = log_call (InitFromGhostContext (m_gpu_ctx s3)) s3;
                            (r, sess) = xrCreateSession rt (now s4);
                            s5 = log_call XrCreateSession s4
                        in if XR_FAILED r then (Inl SessionCreateError, s5)
                           else case prepareDrawing rt
                                       (s5\<lparr>m_oxr := (m_oxr s5)\<lparr>session := sess\<rparr>\<rparr>) of
                             (Inl e, s6) \<Rightarrow> (Inl e, s6)
                           | (Inr _, s6) \<Rightarrow> create_reference_space rt s6))))"

definition beginFrameDrawing ::
  "VAMR_Context \<Rightarrow> runtime \<Rightarrow> VAMR_Session \<Rightarrow> (error + unit) \<times> VAMR_Session" where
  "beginFrameDrawing ctx rt s =
     (let (r1, frame_state') = xrWaitFrame rt (now s);
          s1 = log_call (XrWaitFrame (session (m_oxr s))) s
      in if XR_FAILED r1 then (Inl FrameSyncError, s1)
         else
           (let r2 = xrBeginFrame rt (now s1);
                s2 = log_call (XrBeginFrame (session (m_oxr s1))) s1
            in if XR_FAILED r2 then (Inl FrameBeginError, s2)
               else case m_draw_info s2 of
                 None \<Rightarrow> (Inl Undefined_NullDereference, s2)
               | Some draw_info \<Rightarrow>
                   (let d1 = draw_info\<lparr>frame_state := frame_state'\<rparr>;
                        d2 = (if isDebugTimeMode ctx
                              then d1\<lparr>frame_begin_time := clock_now rt (now s2)\<rparr> else d1)
                    in (Inr (), s2\<lparr>m_draw_info := Some d2\<rparr>))))"

definition avg_frame_count :: nat where
  "avg_frame_count = 8"

definition print_debug_timings :: "arithmetic \<Rightarrow> int \<Rightarrow> VAMR_DrawInfo \<Rightarrow> VAMR_DrawInfo \<times> call" where
  \<comment> \<open>the second argument is what the clock reads; the printed line is the call \<open>Printf\<close> with
      the three numbers that are formatted; the size of the list converts to a double exactly\<close>
  "print_debug_timings fp clock draw_info =
     (let duration_ms = d_ms_of_ticks fp (clock - frame_begin_time draw_info);
          times = last_frame_times draw_info;
          times1 = (if length times \<ge> avg_frame_count then tl times else times);
          times2 = times1 @ [duration_ms];
          avg_ms_tot = foldl (d_add fp) (Finite 0) times2
      in (draw_info\<lparr>last_frame_times := times2\<rparr>,
          Printf duration_ms (d_div fp (Finite 1000) duration_ms)
                 (d_div fp (Finite 1000)
                    (d_div fp avg_ms_tot (Finite (real (length times2)))))))"

definition endFrameDrawing ::
  "VAMR_Context \<Rightarrow> runtime \<Rightarrow> XrCompositionLayerProjection list \<Rightarrow> VAMR_Session
     \<Rightarrow> (error + unit) \<times> VAMR_Session" where
  "endFrameDrawing ctx rt layers s =
     (case m_draw_info s of
        None \<Rightarrow> (Inl Undefined_NullDereference, s)
      | Some draw_info \<Rightarrow>
          (let r = xrEndFrame rt (now s);
               s1 = log_call (XrEndFrame (session (m_oxr s))
                            (predictedDisplayTime (frame_state draw_info)) (length layers)) s
           in if XR_FAILED r then (Inl FrameSubmitError, s1)
              else if isDebugTimeMode ctx
                then (let (draw_info', line) = print_debug_timings (double_arithmetic rt) (clock_now rt (now s1)) draw_info
                      in (Inr (), log_call line (s1\<lparr>m_draw_info := Some draw_info'\<rparr>)))
                else (Inr (), s1)))"

definition vamr_draw_view_info_from_view :: "XrView \<Rightarrow> VAMR_DrawViewInfo \<Rightarrow> VAMR_DrawViewInfo" where
  "vamr_draw_view_info_from_view view r_info =
     (case pose view of ((ox, oy, oz, ow), position) \<Rightarrow>
        r_info\<lparr>pose_position := position, pose_orientation_quat := (ow, ox, oy, oz),
               fov_angles := fov view\<rparr>)"

definition vamr_draw_view_expects_srgb_buffer :: "VAMR_Context \<Rightarrow> bool" where
  "vamr_draw_view_expects_srgb_buffer ctx = runtime_is_WMR ctx"

text \<open>The callback \<^verbatim>\<open>draw_view_fn\<close> of the context is taken to be registered.\<close>

definition drawView ::
  "VAMR_Context \<Rightarrow> runtime \<Rightarrow> handle \<Rightarrow> XrView \<Rightarrow> VAMR_Session
     \<Rightarrow> (error + XrCompositionLayerProjectionView) \<times> VAMR_Session" where
  "drawView ctx rt swapchain view s =
     (let (r1, swapchain_idx) = xrAcquireSwapchainImage rt (now s);
          s1 = log_call (XrAcquireSwapchainImage swapchain) s
      in if XR_FAILED r1 then (Inl SwapchainAcquireError, s1)
         else
           (let r2 = xrWaitSwapchainImage rt (now s1);
                s2 = log_call (XrWaitSwapchainImage swapchain) s1
            in if XR_FAILED r2 then (Inl SwapchainWaitError, s2)
               else
                 (let proj_layer_view =
                        \<lparr>pv_pose = pose view, pv_fov = fov view, pv_swapchain = swapchain,
                         pv_offset = (0, 0),
                         pv_extent = (swapchain_image_width (m_oxr s2),
                                      swapchain_image_height (m_oxr s2))\<rparr>
                  in case map_of (swapchain_images (m_oxr s2)) swapchain of
                       None \<Rightarrow> (Inl Undefined_OutOfBounds, s2)
                     | Some images \<Rightarrow>
                         if swapchain_idx \<ge> length images then (Inl Undefined_OutOfBounds, s2)
                         else
                           (let swapchain_image = images ! swapchain_idx;
                                draw_view_info = vamr_draw_view_info_from_view view
                                  \<lparr>ofsx = fst (pv_offset proj_layer_view),
                                   ofsy = snd (pv_offset proj_layer_view),
                                   dv_width = fst (pv_extent proj_layer_view),
                                   dv_height = snd (pv_extent proj_layer_view),
                                   pose_position = (0, 0, 0),
                                   pose_orientation_quat = (0, 0, 0, 0),
                                   fov_angles = (0, 0, 0, 0),
                                   expects_srgb_buffer = vamr_draw_view_expects_srgb_buffer ctx\<rparr>;
                                s3 = log_call (DrawViewFn draw_view_info) s2
                            in case m_gpu_binding s3 of
                                 None \<Rightarrow> (Inl Undefined_NullDereference, s3)
                               | Some _ \<Rightarrow>
                                   (let s4 = log_call (SubmitToSwapchain swapchain_image) s3;
                                        r3 = xrReleaseSwapchainImage rt (now s4);
                                        s5 = log_call (XrReleaseSwapchainImage swapchain) s4
                                    in if XR_FAILED r3 then (Inl SwapchainReleaseError, s5)
                                       else (Inr proj_layer_view, s5))))))"

text \<open>The loop of \<^verbatim>\<open>drawLayer\<close> over the view indices.\<close>

fun draw_views ::
  "VAMR_Context \<Rightarrow> runtime \<Rightarrow> nat list \<Rightarrow> VAMR_Session
     \<Rightarrow> (error + XrCompositionLayerProjectionView list) \<times> VAMR_Session" where
  "draw_views ctx rt [] s = (Inr [], s)"
| "draw_views ctx rt (view_idx # rest) s =
     (if view_idx \<ge> length (swapchains (m_oxr s)) \<or> view_idx \<ge> length (views (m_oxr s))
      then (Inl Undefined_OutOfBounds, s)
      else case drawView ctx rt (swapchains (m_oxr s) ! view_idx)
                  (views (m_oxr s) ! view_idx) s of
        (Inl e, s1) \<Rightarrow> (Inl e, s1)
      | (Inr proj_layer_view, s1) \<Rightarrow>
          (case draw_views ctx rt rest s1 of
             (Inl e, s2) \<Rightarrow> (Inl e, s2)
           | (Inr proj_layer_views, s2) \<Rightarrow> (Inr (proj_layer_view # proj_layer_views), s2)))"

definition drawLayer ::
  "VAMR_Context \<Rightarrow> runtime \<Rightarrow> VAMR_Session \<Rightarrow> (error + XrCompositionLayerProjection) \<times> VAMR_Session" where
  "drawLayer ctx rt s =
     (let (r, view_count, located) = xrLocateViews rt (now s);
          s1 = log_call (XrLocateViews (session (m_oxr s)) (length (views (m_oxr s)))) s
      in if XR_FAILED r then (Inl ViewLocateError, s1)
         else
           (let s2 = s1\<lparr>m_oxr := (m_oxr s1)
                          \<lparr>views := enumerate_into (views (m_oxr s1)) located\<rparr>\<rparr>
            in case draw_views ctx rt [0..<view_count] s2 of
                 (Inl e, s3) \<Rightarrow> (Inl e, s3)
               | (Inr proj_layer_views, s3) \<Rightarrow>
                   (Inr \<lparr>layer_space = reference_space (m_oxr s3),
                         layer_views = proj_layer_views\<rparr>, s3)))"

definition draw :: "VAMR_Context \<Rightarrow> runtime \<Rightarrow> VAMR_Session \<Rightarrow> (error + unit) \<times> VAMR_Session" where
  "draw ctx rt s =
     (case beginFrameDrawing ctx rt s of
        (Inl e, s1) \<Rightarrow> (Inl e, s1)
      | (Inr _, s1) \<Rightarrow>
          (case m_draw_info s1 of
             None \<Rightarrow> (Inl Undefined_NullDereference, s1)
           | Some draw_info \<Rightarrow>
               if shouldRender (frame_state draw_info)
               then (case drawLayer ctx rt s1 of
                       (Inl e, s2) \<Rightarrow> (Inl e, s2)
                     | (Inr proj_layer, s2) \<Rightarrow> endFrameDrawing ctx rt [proj_layer] s2)
               else endFrameDrawing ctx rt [] s1))"

subsection \<open>A graphics backend\<close>

text \<open>
  Modelled from the spec: the implementations of \<^verbatim>\<open>VAMR_IGraphicsBinding\<close>
  (\<^verbatim>\<open>chooseSwapchainFormat\<close> among them) are not among the sources. The specification says
  that the session delegates "the choice to the graphics backend", which fails "if the
  backend accepts none of the offered formats" and otherwise "selects a format present in
  both" the offered set and "the backend's supported set". A backend is given by the list
  of the formats it supports, in its order of preference, and chooses the first of them
  that the runtime offers.
\<close>

definition backend_chooseSwapchainFormat :: "int list \<Rightarrow> int list \<Rightarrow> int option" where
  "backend_chooseSwapchainFormat supported runtime_formats =
     find (\<lambda>f. f \<in> set runtime_formats) supported"

subsection \<open>An example context, runtime and session\<close>

text \<open>
  A context with both callbacks registered, a backend that supports two formats, and a
  runtime that answers every call with success: two views, two formats, three images per
  swapchain, a fresh handle for every swapchain.
\<close>

definition example_binding :: VAMR_IGraphicsBinding where
  "example_binding =
     \<lparr>checkVersionRequirements = (True, []),
      chooseSwapchainFormat = backend_chooseSwapchainFormat [32856, 35907],
      createSwapchainImages = (\<lambda>n. map Suc [0..<n])\<rparr>"

definition example_context :: VAMR_Context where
  "example_context =
     \<lparr>gpu_ctx_bind_fn = Some (\<lambda>_. 7), gpu_ctx_unbind_fn = True, getGraphicsBindingType = 0,
      VAMR_GraphicsBindingCreateFromType = (\<lambda>_. example_binding),
      isDebugTimeMode = False, runtime_is_WMR = False\<rparr>"

definition example_view_config :: XrViewConfigurationView where
  "example_view_config =
     \<lparr>recommendedImageRectWidth = 1440, recommendedImageRectHeight = 1600,
      recommendedSwapchainSampleCount = 1\<rparr>"

text \<open>
  An arithmetic without rounding, for the examples: a sum or quotient of finite values is
  the exact one, a division by zero gives an infinity or not-a-number as the division of
  doubles does, anything else on a value that is not finite gives not-a-number; a tick is
  a nanosecond.
\<close>

definition exact_arithmetic :: arithmetic where
  "exact_arithmetic =
     \<lparr>d_add = (\<lambda>x y. case (x, y) of (Finite a, Finite b) \<Rightarrow> Finite (a + b) | _ \<Rightarrow> NaN),
      d_div = (\<lambda>x y. case (x, y) of
                 (Finite a, Finite b) \<Rightarrow>
                   if b = 0 then (if a = 0 then NaN else if 0 < a then PosInf else NegInf)
                   else Finite (a / b)
               | _ \<Rightarrow> NaN),
      d_ms_of_ticks = (\<lambda>ticks. Finite (real_of_int ticks / 1000000))\<rparr>"

definition example_runtime :: runtime where
  "example_runtime =
     \<lparr>xrGetSystem = (\<lambda>_. (XR_SUCCESS, 1)),
      xrCreateSession = (\<lambda>_. (XR_SUCCESS, 5)),
      xrCreateReferenceSpace = (\<lambda>_. (XR_SUCCESS, 6)),
      xrBeginSession = (\<lambda>_. XR_SUCCESS),
      xrEndSession = (\<lambda>_. XR_SUCCESS),
      xrEnumerateViewConfigurationViews =
        (\<lambda>_. (XR_SUCCESS, 2, [example_view_config, example_view_config])),
      xrEnumerateSwapchainFormats = (\<lambda>_. (XR_SUCCESS, 2, [35907, 33189])),
      xrEnumerateSwapchainImages = (\<lambda>_. (XR_SUCCESS, 3)),
      xrCreateSwapchain = (\<lambda>t. (XR_SUCCESS, 100 + t)),
      xrWaitFrame = (\<lambda>_. (XR_SUCCESS, \<lparr>predictedDisplayTime = 16, shouldRender = False\<rparr>)),
      xrBeginFrame = (\<lambda>_. XR_SUCCESS),
      xrEndFrame = (\<lambda>_. XR_SUCCESS),
      xrLocateViews = (\<lambda>_. (XR_SUCCESS, 2, [XrView_init, XrView_init])),
      xrAcquireSwapchainImage = (\<lambda>_. (XR_SUCCESS, 0)),
      xrWaitSwapchainImage = (\<lambda>_. XR_SUCCESS),
      xrReleaseSwapchainImage = (\<lambda>_. XR_SUCCESS),
      clock_now = (\<lambda>t. int t),
      double_arithmetic = exact_arithmetic\<rparr>"

definition XR_ERROR_RUNTIME_FAILURE :: XrResult where
  "XR_ERROR_RUNTIME_FAILURE = - 2"

text \<open>A session with a handle, a bound graphics context and a draw info, in state idle.\<close>

definition created_session :: VAMR_Session where
  "created_session =
     VAMR_Session_new\<lparr>m_oxr := OpenXRSessionData_new\<lparr>session := 5,
                                   session_state := XR_SESSION_STATE_IDLE\<rparr>,
                      m_gpu_ctx := 7, m_gpu_binding := Some example_binding,
                      m_draw_info := Some VAMR_DrawInfo_new\<rparr>"

definition state_event :: "XrSessionState \<Rightarrow> XrEventDataSessionStateChanged" where
  "state_event st = \<lparr>ev_session = 5, ev_state = st\<rparr>"

subsection \<open>Observing frames\<close>

text \<open>
  Feeding frame durations to the timing report: each frame ends the given number of clock
  ticks after it began, and the printed lines are collected. \<open>reported_average\<close> is the
  last number of a printed line. \<open>average_fps\<close> is 1000 divided by the quotient of the sum
  of a list of durations, taken from the left, and their number, all in the given
  arithmetic of doubles. \<open>mean\<close> is the arithmetic mean of real numbers.
\<close>

fun feed_frame_durations ::
  "arithmetic \<Rightarrow> int list \<Rightarrow> VAMR_DrawInfo \<Rightarrow> call list \<Rightarrow> VAMR_DrawInfo \<times> call list" where
  "feed_frame_durations fp [] draw_info out = (draw_info, out)"
| "feed_frame_durations fp (ticks # rest) draw_info out =
     (let (draw_info', line) = print_debug_timings fp (frame_begin_time draw_info + ticks) draw_info
      in feed_frame_durations fp rest draw_info' (out @ [line]))"

definition reported_average :: "call \<Rightarrow> double" where
  "reported_average c = (case c of Printf duration fps average \<Rightarrow> average | _ \<Rightarrow> NaN)"

definition average_fps :: "arithmetic \<Rightarrow> double list \<Rightarrow> double" where
  "average_fps fp durations =
     d_div fp (Finite 1000)
       (d_div fp (foldl (d_add fp) (Finite 0) durations) (Finite (real (length durations))))"

definition mean :: "real list \<Rightarrow> real" where
  "mean xs = sum_list xs / real (length xs)"

text \<open>The swapchain image calls of a frame, and the layer counts of its end-frame calls.\<close>

fun is_swapchain_image_call :: "call \<Rightarrow> bool" where
  "is_swapchain_image_call (XrAcquireSwapchainImage _) = True"
| "is_swapchain_image_call (XrWaitSwapchainImage _) = True"
| "is_swapchain_image_call (XrReleaseSwapchainImage _) = True"
| "is_swapchain_image_call _ = False"

fun end_frame_layer_counts :: "call list \<Rightarrow> nat list" where
  "end_frame_layer_counts [] = []"
| "end_frame_layer_counts (XrEndFrame _ _ layer_count # cs) = layer_count # end_frame_layer_counts cs"
| "end_frame_layer_counts (_ # cs) = end_frame_layer_counts cs"

text \<open>The width and height of every swapchain the runtime was asked to create, in the order
  of the calls.\<close>

fun created_swapchain_sizes :: "call list \<Rightarrow> (nat \<times> nat) list" where
  "created_swapchain_sizes [] = []"
| "created_swapchain_sizes (XrCreateSwapchain _ create_info # cs) =
     (width create_info, height create_info) # created_swapchain_sizes cs"
| "created_swapchain_sizes (_ # cs) = created_swapchain_sizes cs"

text \<open>
  The view configurations that \<^verbatim>\<open>prepareDrawing\<close> reads when its first enumeration is call
  number \<open>t\<close>: a vector of as many entries as the first enumeration counts, filled by the
  second.
\<close>

definition enumerated_view_configs :: "runtime \<Rightarrow> nat \<Rightarrow> XrViewConfigurationView list" where
  "enumerated_view_configs rt t =
     enumerate_into
       (replicate (fst (snd (xrEnumerateViewConfigurationViews rt t))) XrViewConfigurationView_init)
       (snd (snd (xrEnumerateViewConfigurationViews rt (Suc t))))"

definition recommended_size :: "XrViewConfigurationView \<Rightarrow> nat \<times> nat" where
  "recommended_size view = (recommendedImageRectWidth view, recommendedImageRectHeight view)"

text \<open>The graphics contexts handed to the unbind callback, in the order of the calls.\<close>

fun unbind_calls :: "call list \<Rightarrow> handle list" where
  "unbind_calls [] = []"
| "unbind_calls (GpuCtxUnbind gpu_ctx # cs) = gpu_ctx # unbind_calls cs"
| "unbind_calls (_ # cs) = unbind_calls cs"

subsection \<open>Invariants of the preparation\<close>

text \<open>
  \<open>same_frame\<close>: what creating the swapchains leaves alone. \<open>swapchains_prepared\<close>: the
  image map has one entry per swapchain, in the order of the swapchain list, every handle
  was answered by an earlier swapchain creation, no handle is listed twice and no image
  list is empty.
\<close>

definition same_frame :: "VAMR_Session \<Rightarrow> VAMR_Session \<Rightarrow> bool" where
  "same_frame s s' \<longleftrightarrow>
     session (m_oxr s') = session (m_oxr s) \<and> reference_space (m_oxr s') = reference_space (m_oxr s)
     \<and> views (m_oxr s') = views (m_oxr s) \<and> session_state (m_oxr s') = session_state (m_oxr s)
     \<and> system_id (m_oxr s') = system_id (m_oxr s)
     \<and> m_gpu_ctx s' = m_gpu_ctx s \<and> m_gpu_binding s' = m_gpu_binding s
     \<and> m_draw_info s' = m_draw_info s"

definition swapchains_prepared :: "runtime \<Rightarrow> VAMR_Session \<Rightarrow> bool" where
  "swapchains_prepared rt s \<longleftrightarrow>
     map fst (swapchain_images (m_oxr s)) = swapchains (m_oxr s)
     \<and> distinct (swapchains (m_oxr s))
     \<and> (\<forall>h \<in> set (swapchains (m_oxr s)). \<exists>t < length (calls s). h = snd (xrCreateSwapchain rt t))
     \<and> (\<forall>entry \<in> set (swapchain_images (m_oxr s)). snd entry \<noteq> [])"

text \<open>The session that the example runtime and context start.\<close>

definition started_session :: VAMR_Session where
  "started_session =
     \<lparr>m_oxr = \<lparr>system_id = 1, session = 5, session_state = XR_SESSION_STATE_UNKNOWN,
               reference_space = 6, views = [XrView_init, XrView_init],
               swapchains = [108, 113],
               swapchain_images = [(108, [1, 2, 3]), (113, [1, 2, 3])],
               swapchain_image_width = 1440, swapchain_image_height = 1600\<rparr>,
      m_gpu_ctx = 7, m_gpu_binding = Some example_binding,
      m_draw_info = Some VAMR_DrawInfo_new,
      calls = [XrGetSystem, GpuCtxBind, InitFromGhostContext 7, XrCreateSession,
               XrEnumerateViewConfigurationViews 0, XrEnumerateViewConfigurationViews 2,
               XrEnumerateSwapchainFormats 5 0, XrEnumerateSwapchainFormats 5 2,
               XrCreateSwapchain 5
                 \<lparr>usageFlags = 33, format = 35907, sampleCount = 1, width = 1440,
                  height = 1600, faceCount = 1, arraySize = 1, mipCount = 1\<rparr>,
               XrEnumerateSwapchainImages 108 0, XrEnumerateSwapchainImages 108 3,
               XrEnumerateSwapchainFormats 5 0, XrEnumerateSwapchainFormats 5 2,
               XrCreateSwapchain 5
                 \<lparr>usageFlags = 33, format = 35907, sampleCount = 1, width = 1440,
                  height = 1600, faceCount = 1, arraySize = 1, mipCount = 1\<rparr>,
               XrEnumerateSwapchainImages 113 0, XrEnumerateSwapchainImages 113 3,
               XrCreateReferenceSpace 5]\<rparr>"

text \<open>A runtime that recommends a different image size for each of its two views.\<close>

definition two_sizes_runtime :: runtime where
  "two_sizes_runtime =
     example_runtime\<lparr>xrEnumerateViewConfigurationViews :=
       (\<lambda>_. (XR_SUCCESS, 2,
          [\<lparr>recommendedImageRectWidth = 640, recommendedImageRectHeight = 480,
            recommendedSwapchainSampleCount = 1\<rparr>,
           \<lparr>recommendedImageRectWidth = 800, recommendedImageRectHeight = 600,
            recommendedSwapchainSampleCount = 1\<rparr>]))\<rparr>"


section \<open>Properties\<close>

subsection \<open>The state machine\<close>

lemmas example_defs =
  example_binding_def example_context_def example_runtime_def created_session_def
  state_event_def XR_ERROR_RUNTIME_FAILURE_def VAMR_Session_new_def OpenXRSessionData_new_def
  VAMR_DrawInfo_new_def

lemma isRunning_iff:
  "isRunning s \<longleftrightarrow>
     session (m_oxr s) \<noteq> XR_NULL_HANDLE \<and>
     session_state (m_oxr s) \<in> {XR_SESSION_STATE_READY, XR_SESSION_STATE_SYNCHRONIZED,
                     XR_SESSION_STATE_VISIBLE, XR_SESSION_STATE_FOCUSED}"
  by (cases "session_state (m_oxr s)") (simp_all add: isRunning_def)

lemma unbind_m_oxr [simp]: "m_oxr (unbindGraphicsContext ctx s) = m_oxr s"
  by (simp add: unbindGraphicsContext_def log_call_def Let_def)

lemma call_m_oxr [simp]: "m_oxr (log_call c s) = m_oxr s"
  by (simp add: log_call_def)

lemma end_session_m_oxr: "m_oxr (snd (end_session ctx rt s)) = m_oxr s"
  by (simp add: end_session_def Let_def)

lemma handle_m_oxr:
  "m_oxr (snd (handleStateChangeEvent ctx rt ev s)) = (m_oxr s)\<lparr>session_state := ev_state ev\<rparr>"
  by (cases "ev_state ev")
     (simp_all add: handleStateChangeEvent_def Let_def end_session_def split: prod.splits sum.splits)

lemma deliver_session:
  "session (m_oxr (fold (\<lambda>ev s. snd (handleStateChangeEvent ctx rt ev s)) evs s)) = session (m_oxr s)"
  by (induction evs arbitrary: s) (simp_all add: handle_m_oxr)

lemma deliver_state:
  "session_state (m_oxr (fold (\<lambda>ev s. snd (handleStateChangeEvent ctx rt ev s)) evs s)) =
     (if evs = [] then session_state (m_oxr s) else ev_state (last evs))"
  by (induction evs arbitrary: s) (simp_all add: handle_m_oxr)

text \<open>
  Claim C1. Whatever events are delivered to \<open>handleStateChangeEvent\<close>, and whatever the
  runtime answers (also when a call throws), \<open>isRunning\<close> afterwards is true exactly when
  the session handle is not null and the state stored last (the state of the last event,
  or the state stored before when there was no event) is one of READY, SYNCHRONIZED,
  VISIBLE, FOCUSED; so it is false in every other case, and always with a null handle.
\<close>

theorem isRunning_after_events:
  "isRunning (fold (\<lambda>ev s. snd (handleStateChangeEvent ctx rt ev s)) evs s) \<longleftrightarrow>
     session (m_oxr s) \<noteq> XR_NULL_HANDLE \<and>
     (if evs = [] then session_state (m_oxr s) else ev_state (last evs))
       \<in> {XR_SESSION_STATE_READY, XR_SESSION_STATE_SYNCHRONIZED,
          XR_SESSION_STATE_VISIBLE, XR_SESSION_STATE_FOCUSED}"
  unfolding isRunning_iff deliver_session deliver_state ..

theorem isRunning_after_events_witness:
  "isRunning (fold (\<lambda>ev s. snd (handleStateChangeEvent example_context example_runtime ev s))
      [state_event XR_SESSION_STATE_READY, state_event XR_SESSION_STATE_SYNCHRONIZED] created_session)
   \<and> \<not> isRunning (fold (\<lambda>ev s. snd (handleStateChangeEvent example_context example_runtime ev s))
      [state_event XR_SESSION_STATE_READY, state_event XR_SESSION_STATE_SYNCHRONIZED] VAMR_Session_new)"
  using isRunning_after_events [of example_context example_runtime
      "[state_event XR_SESSION_STATE_READY, state_event XR_SESSION_STATE_SYNCHRONIZED]" created_session]
    isRunning_after_events [of example_context example_runtime
      "[state_event XR_SESSION_STATE_READY, state_event XR_SESSION_STATE_SYNCHRONIZED]" VAMR_Session_new]
  by (simp add: example_defs)

text \<open>
  Claim C2, as stated, fails: the new state is stored before the runtime is asked to begin
  the session. An idle session with a handle is not running; the READY event whose begin
  call fails throws \<open>SessionBeginError\<close>, and the session is running afterwards.
\<close>

theorem ready_begin_failure_counterexample:
  "fst (handleStateChangeEvent example_context
          (example_runtime\<lparr>xrBeginSession := (\<lambda>_. XR_ERROR_RUNTIME_FAILURE)\<rparr>)
          (state_event XR_SESSION_STATE_READY) created_session) = Inl SessionBeginError
   \<and> \<not> isRunning created_session
   \<and> isRunning (snd (handleStateChangeEvent example_context
          (example_runtime\<lparr>xrBeginSession := (\<lambda>_. XR_ERROR_RUNTIME_FAILURE)\<rparr>)
          (state_event XR_SESSION_STATE_READY) created_session))"
  by (simp add: example_defs handleStateChangeEvent_def isRunning_def XR_FAILED_def Let_def
        log_call_def now_def)

text \<open>
  Claim C2, amended. A READY event whose begin call fails throws \<open>SessionBeginError\<close>
  after the state READY has been stored and the runtime has been called once; afterwards
  \<open>isRunning\<close> is true exactly when the session handle is not null.
\<close>

theorem ready_begin_failure:
  assumes "ev_state ev = XR_SESSION_STATE_READY"
    and "XR_FAILED (xrBeginSession rt (now s))"
  shows "fst (handleStateChangeEvent ctx rt ev s) = Inl SessionBeginError
    \<and> session_state (m_oxr (snd (handleStateChangeEvent ctx rt ev s))) = XR_SESSION_STATE_READY
    \<and> calls (snd (handleStateChangeEvent ctx rt ev s)) = calls s @ [XrBeginSession (session (m_oxr s))]
    \<and> (isRunning (snd (handleStateChangeEvent ctx rt ev s)) \<longleftrightarrow> session (m_oxr s) \<noteq> XR_NULL_HANDLE)"
  using assms
  by (simp add: handleStateChangeEvent_def isRunning_def Let_def log_call_def now_def)

theorem ready_begin_failure_witness:
  "fst (handleStateChangeEvent example_context
          (example_runtime\<lparr>xrBeginSession := (\<lambda>_. XR_ERROR_RUNTIME_FAILURE)\<rparr>)
          (state_event XR_SESSION_STATE_READY) created_session) = Inl SessionBeginError
   \<and> calls (snd (handleStateChangeEvent example_context
          (example_runtime\<lparr>xrBeginSession := (\<lambda>_. XR_ERROR_RUNTIME_FAILURE)\<rparr>)
          (state_event XR_SESSION_STATE_READY) created_session)) = [XrBeginSession 5]
   \<and> isRunning (snd (handleStateChangeEvent example_context
          (example_runtime\<lparr>xrBeginSession := (\<lambda>_. XR_ERROR_RUNTIME_FAILURE)\<rparr>)
          (state_event XR_SESSION_STATE_READY) created_session))"
  using ready_begin_failure [of "state_event XR_SESSION_STATE_READY"
      "example_runtime\<lparr>xrBeginSession := (\<lambda>_. XR_ERROR_RUNTIME_FAILURE)\<rparr>" created_session
      example_context]
  by (simp add: example_defs XR_FAILED_def)




subsection \<open>The frame timing report\<close>

lemma window_step:
  assumes "length w \<le> 8"
  shows "(if length w \<ge> 8 then tl w else w) @ [d] = drop (length (w @ [d]) - 8) (w @ [d])"
proof (cases "length w = 8")
  case True
  then have "w \<noteq> []" by auto
  then obtain x xs where "w = x # xs" by (cases w) auto
  with True show ?thesis by simp
next
  case False
  with assms have "length w < 8" by simp
  then show ?thesis by simp
qed

lemma last8_append:
  "drop (length (drop (length xs - 8) xs @ ys) - 8) (drop (length xs - 8) xs @ ys)
     = drop (length (xs @ ys) - 8) (xs @ (ys :: 'a list))"
proof (cases "length xs \<le> 8")
  case True
  then show ?thesis by simp
next
  case False
  then have "length (drop (length xs - 8) xs) = 8" by simp
  then show ?thesis using False by (simp add: add.commute)
qed

lemma print_debug_timings_eq:
  "print_debug_timings fp (frame_begin_time di + ticks) di =
     (let w = (if length (last_frame_times di) \<ge> 8 then tl (last_frame_times di)
               else last_frame_times di) @ [d_ms_of_ticks fp ticks]
      in (di\<lparr>last_frame_times := w\<rparr>,
          Printf (d_ms_of_ticks fp ticks) (d_div fp (Finite 1000) (d_ms_of_ticks fp ticks))
            (average_fps fp w)))"
  by (simp add: print_debug_timings_def avg_frame_count_def Let_def average_fps_def)

lemma feed_window:
  "length (last_frame_times di) \<le> 8 \<Longrightarrow>
   last_frame_times (fst (feed_frame_durations fp ticks di out)) =
     drop (length (last_frame_times di @ map (d_ms_of_ticks fp) ticks) - 8)
       (last_frame_times di @ map (d_ms_of_ticks fp) ticks)"
proof (induction ticks arbitrary: di out)
  case Nil
  then show ?case by simp
next
  case (Cons k ticks)
  let ?w = "last_frame_times di"
  let ?d = "d_ms_of_ticks fp k"
  let ?ds = "map (d_ms_of_ticks fp) ticks"
  let ?w' = "drop (length (?w @ [?d]) - 8) (?w @ [?d])"
  have step: "(if length ?w \<ge> 8 then tl ?w else ?w) @ [?d] = ?w'"
    using Cons.prems by (rule window_step)
  have len: "length ?w' \<le> 8" by simp
  have "last_frame_times (fst (feed_frame_durations fp (k # ticks) di out)) =
      drop (length (?w' @ ?ds) - 8) (?w' @ ?ds)"
    using Cons.IH [of "di\<lparr>last_frame_times := ?w'\<rparr>"] len
    by (simp add: print_debug_timings_eq Let_def step del: length_drop)
  also have "\<dots> = drop (length ((?w @ [?d]) @ ?ds) - 8) ((?w @ [?d]) @ ?ds)"
    by (rule last8_append)
  finally show ?case by simp
qed

lemma feed_out:
  "ticks \<noteq> [] \<Longrightarrow>
   reported_average (last (snd (feed_frame_durations fp ticks di out))) =
     average_fps fp (last_frame_times (fst (feed_frame_durations fp ticks di out)))"
proof (induction ticks arbitrary: di out)
  case Nil
  then show ?case by simp
next
  case (Cons k ticks)
  show ?case
  proof (cases "ticks = []")
    case True
    then show ?thesis by (simp add: print_debug_timings_eq Let_def reported_average_def)
  next
    case False
    then show ?thesis using Cons.IH by (simp add: print_debug_timings_eq Let_def)
  qed
qed

lemma feed_out_length:
  "length (snd (feed_frame_durations fp ticks di out)) = length out + length ticks"
  by (induction ticks arbitrary: di out) (simp_all add: print_debug_timings_eq Let_def)

text \<open>
  Claim C6, as stated, fails in its last part: what is reported as the average is a frame
  rate. After one frame of 10 ms (ten million ticks of a nanosecond) the window holds that
  one duration, whose mean is 10, and the reported average is 100. Every number in this
  computation is an integer that a double holds, so no operation rounds.
\<close>

theorem frame_duration_window_counterexample:
  "last_frame_times (fst (feed_frame_durations exact_arithmetic [10000000] VAMR_DrawInfo_new []))
     = [Finite 10]
   \<and> mean [10] = 10
   \<and> reported_average (last (snd (feed_frame_durations exact_arithmetic [10000000]
         VAMR_DrawInfo_new []))) = Finite 100
   \<and> reported_average (last (snd (feed_frame_durations exact_arithmetic [10000000]
         VAMR_DrawInfo_new []))) \<noteq> Finite (mean [10])"
  by (simp add: print_debug_timings_def VAMR_DrawInfo_new_def avg_frame_count_def
        reported_average_def mean_def exact_arithmetic_def Let_def)

text \<open>
  Claim C6, amended. Whatever the arithmetic of doubles, when \<open>n\<close> frame durations are fed
  to a new draw info, the window holds exactly the last \<open>min n 8\<close> of them (each the
  conversion of its ticks to milliseconds), the oldest dropped, so never more than 8; one
  line is printed per frame; and the average reported by the last line is a frame rate:
  1000 divided by the quotient of the sum of the durations in the window and their number,
  as the arithmetic of doubles computes them.
\<close>

theorem frame_duration_window:
  assumes "feed_frame_durations fp ticks VAMR_DrawInfo_new [] = (draw_info, lines)"
  shows "last_frame_times draw_info = map (d_ms_of_ticks fp) (drop (length ticks - 8) ticks)
    \<and> length (last_frame_times draw_info) = min (length ticks) 8
    \<and> length lines = length ticks
    \<and> (ticks \<noteq> [] \<longrightarrow>
         reported_average (last lines) = average_fps fp (last_frame_times draw_info))"
proof -
  have w: "last_frame_times draw_info = map (d_ms_of_ticks fp) (drop (length ticks - 8) ticks)"
    using feed_window [of VAMR_DrawInfo_new fp ticks "[]"] assms
    by (simp add: VAMR_DrawInfo_new_def drop_map)
  have n: "length lines = length ticks"
    using feed_out_length [of fp ticks VAMR_DrawInfo_new "[]"] assms by simp
  have avg: "reported_average (last lines) = average_fps fp (last_frame_times draw_info)"
    if "ticks \<noteq> []"
    using feed_out [OF that, of fp VAMR_DrawInfo_new "[]"] assms by simp
  show ?thesis using w n avg by auto
qed

theorem frame_duration_window_witness:
  "last_frame_times (fst (feed_frame_durations exact_arithmetic
       [1000000, 2000000, 3000000, 4000000, 5000000, 6000000, 7000000, 8000000, 9000000,
        10000000, 11000000, 12000000, 13000000, 14000000, 15000000, 16000000, 17000000,
        18000000, 19000000, 20000000]
       VAMR_DrawInfo_new []))
     = [Finite 13, Finite 14, Finite 15, Finite 16, Finite 17, Finite 18, Finite 19, Finite 20]
   \<and> reported_average (last (snd (feed_frame_durations exact_arithmetic
       [1000000, 2000000, 3000000, 4000000, 5000000, 6000000, 7000000, 8000000, 9000000,
        10000000, 11000000, 12000000, 13000000, 14000000, 15000000, 16000000, 17000000,
        18000000, 19000000, 20000000]
       VAMR_DrawInfo_new [])))
     = Finite (1000 / (132 / 8))"
  using frame_duration_window [OF surjective_pairing, of exact_arithmetic
      "[1000000, 2000000, 3000000, 4000000, 5000000, 6000000, 7000000, 8000000, 9000000,
        10000000, 11000000, 12000000, 13000000, 14000000, 15000000, 16000000, 17000000,
        18000000, 19000000, 20000000]"]
  by (simp add: average_fps_def exact_arithmetic_def)

subsection \<open>Swapchain images and formats\<close>

text \<open>
  Claim C10. \<open>swapchain_images_create\<close> reads the first element of the vector the backend
  made without a check: when that vector is empty the read is out of bounds. When the first
  enumeration reports at least one image and the backend returns a vector of that length,
  the read is in bounds, and the function either throws because the second enumeration
  failed or returns that vector, whose length is the enumerated count.
\<close>

theorem swapchain_images_create_bounds:
  assumes "xrEnumerateSwapchainImages rt (length tr) = (r1, image_count)"
    and "\<not> XR_FAILED r1"
    and "images = createSwapchainImages binding image_count"
    and "res = fst (swapchain_images_create rt swapchain (Some binding) tr)"
  shows "(images = [] \<longrightarrow> res = Inl Undefined_OutOfBounds)
    \<and> (1 \<le> image_count \<and> length images = image_count \<longrightarrow>
          res \<noteq> Inl Undefined_OutOfBounds
          \<and> (if XR_FAILED (fst (xrEnumerateSwapchainImages rt (Suc (length tr))))
             then res = Inl SwapchainImagesError
             else res = Inr images \<and> length images = image_count))"
  using assms
  by (auto simp: swapchain_images_create_def Let_def split: prod.splits)

theorem swapchain_images_create_bounds_witness:
  "fst (swapchain_images_create example_runtime 100 (Some example_binding) []) = Inr [1, 2, 3]
   \<and> fst (swapchain_images_create
            (example_runtime\<lparr>xrEnumerateSwapchainImages := (\<lambda>_. (XR_SUCCESS, 0))\<rparr>)
            100 (Some example_binding) []) = Inl Undefined_OutOfBounds"
proof -
  have a: "xrEnumerateSwapchainImages example_runtime (length ([] :: call list)) = (XR_SUCCESS, 3)"
    and b: "xrEnumerateSwapchainImages
              (example_runtime\<lparr>xrEnumerateSwapchainImages := (\<lambda>_. (XR_SUCCESS, 0))\<rparr>)
              (length ([] :: call list)) = (XR_SUCCESS, 0)"
    and ok: "\<not> XR_FAILED XR_SUCCESS"
    by (simp_all add: example_runtime_def XR_FAILED_def)
  have c: "createSwapchainImages example_binding 3 = [1, 2, 3]"
    and d: "createSwapchainImages example_binding 0 = []"
    by (simp_all add: example_binding_def upt_rec)
  show ?thesis
    using swapchain_images_create_bounds [OF a ok refl refl, of example_binding 100]
      swapchain_images_create_bounds [OF b ok refl refl, of example_binding 100]
    by (simp add: c d XR_FAILED_def example_runtime_def)
qed

lemma find_mem_None: "find (\<lambda>f. f \<in> A) xs = None \<longleftrightarrow> set xs \<inter> A = {}"
  by (induction xs) auto

lemma find_mem_Some: "find (\<lambda>f. f \<in> A) xs = Some y \<Longrightarrow> y \<in> set xs \<inter> A"
  by (induction xs) (auto split: if_splits)

text \<open>
  Claim C8, for the backend modelled from the specification. \<open>swapchain_create\<close> offers the
  backend the formats the runtime enumerated (all of them when the runtime writes as many
  as it counted). It throws \<open>FormatNegotiationError\<close> exactly when both enumerations
  succeed and no offered format is supported by the backend; when both succeed and some
  offered format is supported, the runtime is asked to create the swapchain with a format
  that is both offered and supported, and the function returns the swapchain unless that
  creation fails.
\<close>

theorem format_negotiation:
  assumes "xrEnumerateSwapchainFormats rt (length tr) = (r1, format_count, ignored)"
    and "xrEnumerateSwapchainFormats rt (Suc (length tr)) = (r2, format_count2, formats)"
    and "offered = enumerate_into (replicate format_count 0) formats"
    and "chooseSwapchainFormat binding = backend_chooseSwapchainFormat supported"
    and "swapchain_create rt sess (Some binding) xr_view tr = (res, tr')"
  shows "(res = Inl FormatNegotiationError \<longleftrightarrow>
            \<not> XR_FAILED r1 \<and> \<not> XR_FAILED r2 \<and> set offered \<inter> set supported = {})
    \<and> (length formats = format_count \<longrightarrow> offered = formats)
    \<and> (\<not> XR_FAILED r1 \<and> \<not> XR_FAILED r2 \<and> set offered \<inter> set supported \<noteq> {} \<longrightarrow>
          (\<exists>create_info. tr' = tr @ [XrEnumerateSwapchainFormats sess 0,
                                     XrEnumerateSwapchainFormats sess format_count,
                                     XrCreateSwapchain sess create_info]
             \<and> format create_info \<in> set offered \<inter> set supported)
          \<and> (res = Inl SwapchainCreateError \<or> (\<exists>swapchain. res = Inr swapchain)))"
proof -
  have off: "length formats = format_count \<longrightarrow> offered = formats"
    by (simp add: assms(3) enumerate_into_def)
  have run: "(res, tr') =
      (if XR_FAILED r1 then (Inl FormatCountError, tr @ [XrEnumerateSwapchainFormats sess 0])
       else if XR_FAILED r2
         then (Inl FormatEnumerationError,
               tr @ [XrEnumerateSwapchainFormats sess 0, XrEnumerateSwapchainFormats sess format_count])
       else case backend_chooseSwapchainFormat supported offered of
         None \<Rightarrow> (Inl FormatNegotiationError,
               tr @ [XrEnumerateSwapchainFormats sess 0, XrEnumerateSwapchainFormats sess format_count])
       | Some chosen \<Rightarrow>
           (if XR_FAILED (fst (xrCreateSwapchain rt (Suc (Suc (length tr)))))
            then Inl SwapchainCreateError else Inr (snd (xrCreateSwapchain rt (Suc (Suc (length tr))))),
            tr @ [XrEnumerateSwapchainFormats sess 0, XrEnumerateSwapchainFormats sess format_count,
                  XrCreateSwapchain sess
                    \<lparr>usageFlags = XR_SWAPCHAIN_USAGE_SAMPLED_BIT
                                    + XR_SWAPCHAIN_USAGE_COLOR_ATTACHMENT_BIT,
                     format = chosen,
                     sampleCount = recommendedSwapchainSampleCount xr_view,
                     width = recommendedImageRectWidth xr_view,
                     height = recommendedImageRectHeight xr_view,
                     faceCount = 1, arraySize = 1, mipCount = 1\<rparr>]))"
    unfolding assms(5) [symmetric]
    by (simp add: swapchain_create_def assms(1,2,4) assms(3) [symmetric] Let_def
          split: option.splits prod.splits)
  show ?thesis
  proof (cases "XR_FAILED r1 \<or> XR_FAILED r2")
    case True
    then show ?thesis
      using run off by (auto split: if_splits)
  next
    case False
    show ?thesis
    proof (cases "backend_chooseSwapchainFormat supported offered")
      case None
      then have "set offered \<inter> set supported = {}"
        by (auto simp: backend_chooseSwapchainFormat_def find_mem_None)
      then show ?thesis
        using run False None off by simp
    next
      case (Some chosen)
      then have "chosen \<in> set offered \<inter> set supported"
        by (auto simp: backend_chooseSwapchainFormat_def dest: find_mem_Some)
      then show ?thesis
        using run False Some off by auto
    qed
  qed
qed

theorem format_negotiation_witness:
  "swapchain_create example_runtime 5 (Some example_binding) example_view_config []
     = (Inr 102,
        [XrEnumerateSwapchainFormats 5 0, XrEnumerateSwapchainFormats 5 2,
         XrCreateSwapchain 5
           \<lparr>usageFlags = 33, format = 35907, sampleCount = 1, width = 1440, height = 1600,
            faceCount = 1, arraySize = 1, mipCount = 1\<rparr>])
   \<and> fst (swapchain_create (example_runtime\<lparr>xrEnumerateSwapchainFormats := (\<lambda>_. (XR_SUCCESS, 1, [33189]))\<rparr>)
        5 (Some example_binding) example_view_config []) = Inl FormatNegotiationError"
proof -
  have a: "xrEnumerateSwapchainFormats example_runtime (length ([] :: call list))
             = (XR_SUCCESS, 2, [35907, 33189])"
    and b: "xrEnumerateSwapchainFormats example_runtime (Suc (length ([] :: call list)))
             = (XR_SUCCESS, 2, [35907, 33189])"
    and c: "chooseSwapchainFormat example_binding = backend_chooseSwapchainFormat [32856, 35907]"
    by (simp_all add: example_runtime_def example_binding_def)
  have a': "xrEnumerateSwapchainFormats
              (example_runtime\<lparr>xrEnumerateSwapchainFormats := (\<lambda>_. (XR_SUCCESS, 1, [33189]))\<rparr>)
              (length ([] :: call list)) = (XR_SUCCESS, 1, [33189])"
    and b': "xrEnumerateSwapchainFormats
              (example_runtime\<lparr>xrEnumerateSwapchainFormats := (\<lambda>_. (XR_SUCCESS, 1, [33189]))\<rparr>)
              (Suc (length ([] :: call list))) = (XR_SUCCESS, 1, [33189])"
    by simp_all
  have run: "swapchain_create example_runtime 5 (Some example_binding) example_view_config []
     = (Inr 102,
        [XrEnumerateSwapchainFormats 5 0, XrEnumerateSwapchainFormats 5 2,
         XrCreateSwapchain 5
           \<lparr>usageFlags = 33, format = 35907, sampleCount = 1, width = 1440, height = 1600,
            faceCount = 1, arraySize = 1, mipCount = 1\<rparr>])"
    by (simp add: swapchain_create_def example_runtime_def example_binding_def
          example_view_config_def backend_chooseSwapchainFormat_def enumerate_into_def
          XR_FAILED_def XR_SWAPCHAIN_USAGE_SAMPLED_BIT_def
          XR_SWAPCHAIN_USAGE_COLOR_ATTACHMENT_BIT_def Let_def)
  show ?thesis
    using format_negotiation [OF a b refl c run]
      format_negotiation [OF a' b' refl c surjective_pairing, of 5 example_view_config]
    by (simp add: run XR_FAILED_def enumerate_into_def)
qed

subsection \<open>Drawing a frame\<close>

text \<open>
  Claim C7. When \<open>draw\<close> captures a frame state whose should-render flag is false (the wait
  and the begin of the frame succeed and the draw info exists), the calls of the frame are
  the frame wait, the frame begin and the frame end with zero layers, followed at most by
  the printed timing line: the only end-frame call has zero layers and there is no
  swapchain image acquire, wait or release.
\<close>

theorem draw_without_render:
  assumes "xrWaitFrame rt (now s) = (r1, captured)"
    and "\<not> XR_FAILED r1"
    and "\<not> XR_FAILED (xrBeginFrame rt (Suc (now s)))"
    and "m_draw_info s = Some draw_info"
    and "\<not> shouldRender captured"
    and "draw ctx rt s = (res, s')"
  shows "(\<exists>printed. calls s' = calls s @ [XrWaitFrame (session (m_oxr s)),
                                  XrBeginFrame (session (m_oxr s)),
                                  XrEndFrame (session (m_oxr s)) (predictedDisplayTime captured) 0]
                               @ printed
            \<and> (printed = [] \<or> (\<exists>a b c. printed = [Printf a b c])))
    \<and> end_frame_layer_counts (drop (length (calls s)) (calls s')) = [0]
    \<and> filter is_swapchain_image_call (drop (length (calls s)) (calls s')) = []"
proof -
  have "\<exists>printed. calls s' = calls s @ [XrWaitFrame (session (m_oxr s)),
                                  XrBeginFrame (session (m_oxr s)),
                                  XrEndFrame (session (m_oxr s)) (predictedDisplayTime captured) 0]
                               @ printed
            \<and> (printed = [] \<or> (\<exists>a b c. printed = [Printf a b c]))"
    using assms
    by (auto simp: draw_def beginFrameDrawing_def endFrameDrawing_def print_debug_timings_def
          Let_def log_call_def now_def split: if_splits)
  then obtain printed where
    c: "calls s' = calls s @ [XrWaitFrame (session (m_oxr s)),
                                  XrBeginFrame (session (m_oxr s)),
                                  XrEndFrame (session (m_oxr s)) (predictedDisplayTime captured) 0]
                               @ printed"
    and p: "printed = [] \<or> (\<exists>a b c. printed = [Printf a b c])"
    by blast
  from p have "end_frame_layer_counts (drop (length (calls s)) (calls s')) = [0]"
    by (auto simp: c)
  moreover from p have "filter is_swapchain_image_call (drop (length (calls s)) (calls s')) = []"
    by (auto simp: c)
  ultimately show ?thesis using c p by blast
qed

theorem draw_without_render_witness:
  "calls (snd (draw example_context example_runtime created_session))
     = [XrWaitFrame 5, XrBeginFrame 5, XrEndFrame 5 16 0]
   \<and> fst (draw example_context example_runtime created_session) = Inr ()"
proof -
  have a: "xrWaitFrame example_runtime (now created_session)
             = (XR_SUCCESS, \<lparr>predictedDisplayTime = 16, shouldRender = False\<rparr>)"
    and b: "\<not> XR_FAILED XR_SUCCESS"
    and c: "\<not> XR_FAILED (xrBeginFrame example_runtime (Suc (now created_session)))"
    and d: "m_draw_info created_session = Some VAMR_DrawInfo_new"
    and e: "\<not> shouldRender \<lparr>predictedDisplayTime = 16, shouldRender = False\<rparr>"
    by (simp_all add: example_runtime_def created_session_def XR_FAILED_def)
  have run: "draw example_context example_runtime created_session =
     (Inr (), created_session\<lparr>m_draw_info := Some (VAMR_DrawInfo_new\<lparr>frame_state :=
         \<lparr>predictedDisplayTime = 16, shouldRender = False\<rparr>\<rparr>),
        calls := [XrWaitFrame 5, XrBeginFrame 5, XrEndFrame 5 16 0]\<rparr>)"
    by (simp add: draw_def beginFrameDrawing_def endFrameDrawing_def example_defs
          XR_FAILED_def Let_def log_call_def now_def)
  show ?thesis
    using draw_without_render [OF a b c d e run] by (simp add: run)
qed

subsection \<open>Starting a session\<close>

text \<open>What a successful swapchain or image creation tells about the runtime's answers.\<close>

lemma swapchain_create_Inr:
  assumes "swapchain_create rt sess b v tr = (Inr sc, tr')"
  shows "sc = snd (xrCreateSwapchain rt (length tr + 2))
    \<and> \<not> XR_FAILED (fst (xrCreateSwapchain rt (length tr + 2)))
    \<and> length tr' = length tr + 3"
  using assms
  by (auto simp: swapchain_create_def Let_def split: prod.splits if_splits option.splits)

lemma swapchain_images_create_Inr:
  assumes "swapchain_images_create rt sc b tr = (Inr images, tr')"
  shows "images \<noteq> [] \<and> length tr' = length tr + 2"
  using assms
  by (auto simp: swapchain_images_create_def Let_def split: prod.splits if_splits option.splits)

lemma created_swapchain_sizes_append:
  "created_swapchain_sizes (cs @ cs') = created_swapchain_sizes cs @ created_swapchain_sizes cs'"
  by (induction cs rule: created_swapchain_sizes.induct) simp_all

lemma swapchain_create_sizes:
  assumes "swapchain_create rt sess b v tr = (Inr sc, tr')"
  shows "created_swapchain_sizes tr' = created_swapchain_sizes tr @ [recommended_size v]"
  using assms
  by (auto simp: swapchain_create_def Let_def created_swapchain_sizes_append recommended_size_def
        split: prod.splits if_splits option.splits)

lemma swapchain_images_create_sizes:
  assumes "swapchain_images_create rt sc b tr = (Inr images, tr')"
  shows "created_swapchain_sizes tr' = created_swapchain_sizes tr"
  using assms
  by (auto simp: swapchain_images_create_def Let_def created_swapchain_sizes_append
        split: prod.splits if_splits option.splits)

lemma prepare_swapchains_cases:
  assumes "prepare_swapchains rt (view # view_configs) s = (r, s')"
  obtains
    (create_failed) e tr where
      "swapchain_create rt (session (m_oxr s)) (m_gpu_binding s) view (calls s) = (Inl e, tr)"
      "r = Inl e" "s' = s\<lparr>calls := tr\<rparr>"
  | (images_failed) swapchain tr e tr' where
      "swapchain_create rt (session (m_oxr s)) (m_gpu_binding s) view (calls s) = (Inr swapchain, tr)"
      "swapchain_images_create rt swapchain (m_gpu_binding s) tr = (Inl e, tr')"
      "r = Inl e"
      "s' = s\<lparr>calls := tr' @ (if swapchain \<noteq> XR_NULL_HANDLE
                                then [XrDestroySwapchain swapchain] else [])\<rparr>"
  | (stored) swapchain tr images tr' where
      "swapchain_create rt (session (m_oxr s)) (m_gpu_binding s) view (calls s) = (Inr swapchain, tr)"
      "swapchain_images_create rt swapchain (m_gpu_binding s) tr = (Inr images, tr')"
      "prepare_swapchains rt view_configs
         (s\<lparr>calls := tr',
            m_oxr := (m_oxr s)
              \<lparr>swapchain_image_width := int32_of_uint32 (recommendedImageRectWidth view),
               swapchain_image_height := int32_of_uint32 (recommendedImageRectHeight view),
               swapchains := swapchains (m_oxr s) @ [swapchain],
               swapchain_images := map_insert swapchain images (swapchain_images (m_oxr s))\<rparr>\<rparr>)
         = (r, s')"
  using assms by (auto split: prod.splits sum.splits)

lemma prepare_swapchains_frame:
  "prepare_swapchains rt view_configs s = (r, s') \<Longrightarrow> same_frame s s'"
proof (induction view_configs arbitrary: s)
  case Nil
  then show ?case by (simp add: same_frame_def)
next
  case (Cons view view_configs)
  from Cons.prems show ?case
  proof (cases rule: prepare_swapchains_cases)
    case create_failed
    then show ?thesis by (simp add: same_frame_def)
  next
    case images_failed
    then show ?thesis by (simp add: same_frame_def)
  next
    case (stored swapchain tr images tr')
    from Cons.IH [OF stored(3)] show ?thesis by (simp add: same_frame_def)
  qed
qed

lemma prepare_swapchains_no_null:
  assumes "\<forall>t. \<not> XR_FAILED (fst (xrCreateSwapchain rt t)) \<longrightarrow> snd (xrCreateSwapchain rt t) \<noteq> XR_NULL_HANDLE"
  shows "prepare_swapchains rt view_configs s = (r, s') \<Longrightarrow>
     XR_NULL_HANDLE \<notin> set (swapchains (m_oxr s)) \<Longrightarrow> XR_NULL_HANDLE \<notin> set (swapchains (m_oxr s'))"
proof (induction view_configs arbitrary: s)
  case Nil
  then show ?case by simp
next
  case (Cons view view_configs)
  from Cons.prems(1) show ?case
  proof (cases rule: prepare_swapchains_cases)
    case create_failed
    then show ?thesis using Cons.prems(2) by simp
  next
    case images_failed
    then show ?thesis using Cons.prems(2) by simp
  next
    case (stored swapchain tr images tr')
    from swapchain_create_Inr [OF stored(1)] assms have "swapchain \<noteq> XR_NULL_HANDLE"
      by blast
    with Cons.IH [OF stored(3)] Cons.prems(2) show ?thesis by simp
  qed
qed

lemma prepare_swapchains_Inr:
  assumes "inj (\<lambda>t. snd (xrCreateSwapchain rt t))"
  shows "prepare_swapchains rt view_configs s = (Inr u, s') \<Longrightarrow> swapchains_prepared rt s \<Longrightarrow>
     swapchains_prepared rt s'
     \<and> length (swapchains (m_oxr s')) = length (swapchains (m_oxr s)) + length view_configs"
proof (induction view_configs arbitrary: s)
  case Nil
  then show ?case by simp
next
  case (Cons view view_configs)
  from Cons.prems(1) show ?case
  proof (cases rule: prepare_swapchains_cases)
    case (stored swapchain tr images tr')
    let ?s = "s\<lparr>calls := tr',
            m_oxr := (m_oxr s)
              \<lparr>swapchain_image_width := int32_of_uint32 (recommendedImageRectWidth view),
               swapchain_image_height := int32_of_uint32 (recommendedImageRectHeight view),
               swapchains := swapchains (m_oxr s) @ [swapchain],
               swapchain_images := map_insert swapchain images (swapchain_images (m_oxr s))\<rparr>\<rparr>"
    from swapchain_create_Inr [OF stored(1)]
    have sc: "swapchain = snd (xrCreateSwapchain rt (length (calls s) + 2))"
      and tr: "length tr = length (calls s) + 3" by simp_all
    from swapchain_images_create_Inr [OF stored(2)]
    have im: "images \<noteq> []" and tr': "length tr' = length tr + 2" by simp_all
    have fresh: "swapchain \<notin> set (swapchains (m_oxr s))"
    proof
      assume "swapchain \<in> set (swapchains (m_oxr s))"
      with Cons.prems(2) obtain t where "t < length (calls s)"
        and "swapchain = snd (xrCreateSwapchain rt t)"
        unfolding swapchains_prepared_def by blast
      with sc have "snd (xrCreateSwapchain rt t) = snd (xrCreateSwapchain rt (length (calls s) + 2))"
        by simp
      with assms have "t = length (calls s) + 2" by (rule injD)
      with \<open>t < length (calls s)\<close> show False by simp
    qed
    have keys: "map fst (swapchain_images (m_oxr s)) = swapchains (m_oxr s)"
      and dist: "distinct (swapchains (m_oxr s))"
      and old: "\<forall>h \<in> set (swapchains (m_oxr s)). \<exists>t < length (calls s). h = snd (xrCreateSwapchain rt t)"
      and nonempty: "\<forall>entry \<in> set (swapchain_images (m_oxr s)). snd entry \<noteq> []"
      using Cons.prems(2) by (simp_all add: swapchains_prepared_def)
    have "swapchain \<notin> fst ` set (swapchain_images (m_oxr s))"
      using fresh keys by (metis set_map)
    then have "map_of (swapchain_images (m_oxr s)) swapchain = None"
      by (simp add: map_of_eq_None_iff)
    then have ins: "map_insert swapchain images (swapchain_images (m_oxr s))
        = swapchain_images (m_oxr s) @ [(swapchain, images)]"
      by (simp add: map_insert_def)
    have len: "length (calls ?s) = length (calls s) + 5"
      using tr tr' by simp
    have 1: "map fst (swapchain_images (m_oxr ?s)) = swapchains (m_oxr ?s)"
      using keys by (simp add: ins)
    have 2: "distinct (swapchains (m_oxr ?s))"
      using dist fresh by simp
    have 3: "\<exists>t < length (calls ?s). h = snd (xrCreateSwapchain rt t)"
      if "h \<in> set (swapchains (m_oxr ?s))" for h
    proof (cases "h = swapchain")
      case True
      have "length (calls s) + 2 < length (calls ?s)" using len by simp
      with True sc show ?thesis by blast
    next
      case False
      with that have "h \<in> set (swapchains (m_oxr s))" by simp
      with old obtain t where "t < length (calls s)" "h = snd (xrCreateSwapchain rt t)"
        by blast
      then have "t < length (calls ?s)" "h = snd (xrCreateSwapchain rt t)"
        using len by simp_all
      then show ?thesis by blast
    qed
    have 4: "\<forall>entry \<in> set (swapchain_images (m_oxr ?s)). snd entry \<noteq> []"
      using nonempty im by (simp add: ins)
    have "swapchains_prepared rt ?s"
      unfolding swapchains_prepared_def using 1 2 3 4 by blast
    from Cons.IH [OF stored(3) this] show ?thesis by simp
  qed simp_all
qed

lemma prepare_swapchains_sizes:
  "prepare_swapchains rt view_configs s = (Inr u, s') \<Longrightarrow>
     created_swapchain_sizes (calls s')
       = created_swapchain_sizes (calls s) @ map recommended_size view_configs
     \<and> (swapchain_image_width (m_oxr s'), swapchain_image_height (m_oxr s'))
       = (if view_configs = []
          then (swapchain_image_width (m_oxr s), swapchain_image_height (m_oxr s))
          else (int32_of_uint32 (recommendedImageRectWidth (last view_configs)),
                int32_of_uint32 (recommendedImageRectHeight (last view_configs))))"
proof (induction view_configs arbitrary: s)
  case Nil
  then show ?case by simp
next
  case (Cons view view_configs)
  from Cons.prems show ?case
  proof (cases rule: prepare_swapchains_cases)
    case (stored swapchain tr images tr')
    have "created_swapchain_sizes tr' = created_swapchain_sizes (calls s) @ [recommended_size view]"
      using swapchain_create_sizes [OF stored(1)] swapchain_images_create_sizes [OF stored(2)]
      by simp
    with Cons.IH [OF stored(3)] show ?thesis by simp
  qed simp_all
qed

lemma prepareDrawing_cases:
  assumes "prepareDrawing rt s = (r, s')"
  obtains
    (failed) e n where "r = Inl e"
      "s' = log_call (XrEnumerateViewConfigurationViews 0) s
       \<or> s' = log_call (XrEnumerateViewConfigurationViews n) (log_call (XrEnumerateViewConfigurationViews 0) s)"
  | (loop_failed) e view_configs n where "r = Inl e"
      "prepare_swapchains rt view_configs
         (log_call (XrEnumerateViewConfigurationViews n) (log_call (XrEnumerateViewConfigurationViews 0) s))
       = (Inl e, s')"
  | (prepared) view_configs s3 where "r = Inr ()"
      "length view_configs = fst (snd (xrEnumerateViewConfigurationViews rt (now s)))"
      "prepare_swapchains rt view_configs
         (log_call (XrEnumerateViewConfigurationViews (length view_configs))
            (log_call (XrEnumerateViewConfigurationViews 0) s))
       = (Inr (), s3)"
      "s' = s3\<lparr>m_oxr := (m_oxr s3)
                \<lparr>views := resize (views (m_oxr s3))
                    (fst (snd (xrEnumerateViewConfigurationViews rt (Suc (now s))))) XrView_init\<rparr>,
              m_draw_info := Some VAMR_DrawInfo_new\<rparr>"
      "view_configs = enumerated_view_configs rt (now s)"
proof (cases "XR_FAILED (fst (xrEnumerateViewConfigurationViews rt (now s)))")
  case True
  with assms have "r = Inl ViewConfigCountError"
    "s' = log_call (XrEnumerateViewConfigurationViews 0) s"
    by (auto simp: prepareDrawing_def Let_def split: prod.splits)
  then show ?thesis using failed by blast
next
  case ok1: False
  let ?n = "fst (snd (xrEnumerateViewConfigurationViews rt (now s)))"
  let ?s2 = "log_call (XrEnumerateViewConfigurationViews ?n) (log_call (XrEnumerateViewConfigurationViews 0) s)"
  let ?vcs = "enumerate_into (replicate ?n XrViewConfigurationView_init)
                (snd (snd (xrEnumerateViewConfigurationViews rt (Suc (now s)))))"
  have now1: "now (log_call (XrEnumerateViewConfigurationViews 0) s) = Suc (now s)"
    by (simp add: now_def log_call_def)
  show ?thesis
  proof (cases "XR_FAILED (fst (xrEnumerateViewConfigurationViews rt (Suc (now s))))")
    case True
    with assms ok1 have "r = Inl ViewConfigError" "s' = ?s2"
      by (auto simp: prepareDrawing_def Let_def now1 split: prod.splits)
    then show ?thesis using failed by blast
  next
    case ok2: False
    have len: "length ?vcs = ?n" by (simp add: enumerate_into_def)
    show ?thesis
    proof (cases "prepare_swapchains rt ?vcs ?s2")
      case (Pair a s3)
      show ?thesis
      proof (cases a)
        case (Inl e)
        with Pair assms ok1 ok2 have "r = Inl e" "s' = s3"
          by (auto simp: prepareDrawing_def Let_def now1 split: prod.splits)
        with Pair Inl show ?thesis using loop_failed by blast
      next
        case (Inr u)
        with Pair assms ok1 ok2 have "r = Inr ()"
          "s' = s3\<lparr>m_oxr := (m_oxr s3)
                \<lparr>views := resize (views (m_oxr s3))
                    (fst (snd (xrEnumerateViewConfigurationViews rt (Suc (now s))))) XrView_init\<rparr>,
              m_draw_info := Some VAMR_DrawInfo_new\<rparr>"
          by (auto simp: prepareDrawing_def Let_def now1 split: prod.splits)
        moreover have "prepare_swapchains rt ?vcs
            (log_call (XrEnumerateViewConfigurationViews (length ?vcs))
               (log_call (XrEnumerateViewConfigurationViews 0) s)) = (Inr (), s3)"
          using Pair Inr by (simp add: len)
        moreover have "?vcs = enumerated_view_configs rt (now s)"
          by (simp add: enumerated_view_configs_def)
        ultimately show ?thesis using prepared [of ?vcs s3] len by blast
      qed
    qed
  qed
qed

lemma same_frame_call [simp]: "same_frame s (log_call c s)"
  by (simp add: same_frame_def log_call_def)

lemma same_frame_trans: "same_frame a b \<Longrightarrow> same_frame b c \<Longrightarrow> same_frame a c"
  by (simp add: same_frame_def)

lemma call_fields [simp]:
  "m_gpu_ctx (log_call c s) = m_gpu_ctx s"
  "m_gpu_binding (log_call c s) = m_gpu_binding s" "m_draw_info (log_call c s) = m_draw_info s"
  "calls (log_call c s) = calls s @ [c]"
  by (simp_all add: log_call_def)

lemma prepareDrawing_keeps:
  assumes "prepareDrawing rt s = (r, s')"
  shows "session (m_oxr s') = session (m_oxr s) \<and> reference_space (m_oxr s') = reference_space (m_oxr s)
    \<and> m_gpu_ctx s' = m_gpu_ctx s \<and> m_gpu_binding s' = m_gpu_binding s"
  using assms
proof (cases rule: prepareDrawing_cases)
  case (failed e n)
  then show ?thesis by auto
next
  case (loop_failed e view_configs n)
  from prepare_swapchains_frame [OF loop_failed(2)] show ?thesis
    by (simp add: same_frame_def)
next
  case (prepared view_configs s3)
  from prepare_swapchains_frame [OF prepared(3)] prepared(4) show ?thesis
    by (simp add: same_frame_def)
qed

lemma prepareDrawing_no_null:
  assumes "\<forall>t. \<not> XR_FAILED (fst (xrCreateSwapchain rt t)) \<longrightarrow> snd (xrCreateSwapchain rt t) \<noteq> XR_NULL_HANDLE"
    and "prepareDrawing rt s = (r, s')"
    and "XR_NULL_HANDLE \<notin> set (swapchains (m_oxr s))"
  shows "XR_NULL_HANDLE \<notin> set (swapchains (m_oxr s'))"
  using assms(2)
proof (cases rule: prepareDrawing_cases)
  case (failed e n)
  then show ?thesis using assms(3) by auto
next
  case (loop_failed e view_configs n)
  from prepare_swapchains_no_null [OF assms(1) loop_failed(2)] assms(3) show ?thesis by simp
next
  case (prepared view_configs s3)
  from prepare_swapchains_no_null [OF assms(1) prepared(3)] assms(3) prepared(4)
  show ?thesis by simp
qed

lemma length_resize [simp]: "length (resize xs n v) = n"
  by (simp add: resize_def)

lemma prepareDrawing_Inr:
  assumes "inj (\<lambda>t. snd (xrCreateSwapchain rt t))"
    and "\<forall>t. fst (snd (xrEnumerateViewConfigurationViews rt t)) = n"
    and "prepareDrawing rt s = (Inr u, s')"
    and "swapchains (m_oxr s) = []" and "swapchain_images (m_oxr s) = []"
  shows "swapchains_prepared rt s' \<and> length (swapchains (m_oxr s')) = n
    \<and> length (views (m_oxr s')) = n \<and> m_draw_info s' = Some VAMR_DrawInfo_new"
  using assms(3)
proof (cases rule: prepareDrawing_cases)
  case (prepared view_configs s3)
  let ?s2 = "log_call (XrEnumerateViewConfigurationViews (length view_configs))
            (log_call (XrEnumerateViewConfigurationViews 0) s)"
  have "swapchains_prepared rt ?s2"
    using assms(4,5) by (simp add: swapchains_prepared_def)
  from prepare_swapchains_Inr [OF assms(1) prepared(3) this]
  have "swapchains_prepared rt s3" "length (swapchains (m_oxr s3)) = length view_configs"
    using assms(4) by simp_all
  then show ?thesis
    using prepared(2,4) assms(2) by (simp add: swapchains_prepared_def)
qed simp_all

lemma prepareDrawing_sizes:
  assumes "prepareDrawing rt s = (Inr u, s')"
  shows "created_swapchain_sizes (calls s')
       = created_swapchain_sizes (calls s) @ map recommended_size (enumerated_view_configs rt (now s))
     \<and> (swapchain_image_width (m_oxr s'), swapchain_image_height (m_oxr s'))
       = (if enumerated_view_configs rt (now s) = []
          then (swapchain_image_width (m_oxr s), swapchain_image_height (m_oxr s))
          else (int32_of_uint32 (recommendedImageRectWidth (last (enumerated_view_configs rt (now s)))),
                int32_of_uint32 (recommendedImageRectHeight (last (enumerated_view_configs rt (now s))))))"
  using assms
proof (cases rule: prepareDrawing_cases)
  case (prepared view_configs s3)
  from prepare_swapchains_sizes [OF prepared(3)] prepared(4,5) show ?thesis
    by (simp add: created_swapchain_sizes_append)
qed simp_all

lemma create_reference_space_keeps:
  assumes "create_reference_space rt s = (r, s')"
  shows "session (m_oxr s') = session (m_oxr s) \<and> swapchains (m_oxr s') = swapchains (m_oxr s)
    \<and> calls s' = calls s @ [XrCreateReferenceSpace (session (m_oxr s))]
    \<and> swapchain_images (m_oxr s') = swapchain_images (m_oxr s) \<and> views (m_oxr s') = views (m_oxr s)
    \<and> swapchain_image_width (m_oxr s') = swapchain_image_width (m_oxr s)
    \<and> swapchain_image_height (m_oxr s') = swapchain_image_height (m_oxr s)
    \<and> m_gpu_ctx s' = m_gpu_ctx s \<and> m_gpu_binding s' = m_gpu_binding s
    \<and> m_draw_info s' = m_draw_info s"
  using assms
  by (auto simp: create_reference_space_def Let_def split: prod.splits if_splits)

lemma start_cases:
  assumes "start ctx rt s = (r, s')"
  obtains
    (no_session) e where "r = Inl e" "swapchains (m_oxr s') = swapchains (m_oxr s)"
  | (prepare_failed) e s5 where "r = Inl e" "swapchains (m_oxr s5) = swapchains (m_oxr s)"
      "prepareDrawing rt s5 = (Inl e, s')"
  | (prepared) bind_fn s5 s6 where
      "gpu_ctx_bind_fn ctx = Some bind_fn" "m_gpu_ctx s5 = bind_fn (getGraphicsBindingType ctx)"
      "m_gpu_ctx s5 \<noteq> nullptr"
      "swapchains (m_oxr s5) = swapchains (m_oxr s)"
      "swapchain_images (m_oxr s5) = swapchain_images (m_oxr s)"
      "prepareDrawing rt s5 = (Inr (), s6)"
      "create_reference_space rt s6 = (r, s')"
      "calls s5 = calls s @ [XrGetSystem, GpuCtxBind, InitFromGhostContext (m_gpu_ctx s5),
                             XrCreateSession]"
      "swapchain_image_width (m_oxr s5) = swapchain_image_width (m_oxr s)"
      "swapchain_image_height (m_oxr s5) = swapchain_image_height (m_oxr s)"
proof (cases "gpu_ctx_bind_fn ctx")
  case None
  with assms have "r = Inl ConfigurationError_NoBindFn" "s' = s"
    by (simp_all add: start_def)
  then show ?thesis using no_session by blast
next
  case (Some bind_fn)
  define s1 where "s1 = (log_call XrGetSystem s)
      \<lparr>m_oxr := (m_oxr (log_call XrGetSystem s))\<lparr>system_id := snd (xrGetSystem rt (now s))\<rparr>\<rparr>"
  define s2 where "s2 = (log_call GpuCtxBind s1)\<lparr>m_gpu_ctx := bind_fn (getGraphicsBindingType ctx)\<rparr>"
  define binding where
    "binding = VAMR_GraphicsBindingCreateFromType ctx (getGraphicsBindingType ctx)"
  define s3 where "s3 = s2\<lparr>m_gpu_binding := Some binding\<rparr>"
  define s4 where "s4 = log_call (InitFromGhostContext (m_gpu_ctx s3)) s3"
  define s5 where "s5 = (log_call XrCreateSession s4)
      \<lparr>m_oxr := (m_oxr (log_call XrCreateSession s4))\<lparr>session := snd (xrCreateSession rt (now s4))\<rparr>\<rparr>"
  have eq: "start ctx rt s =
      (if XR_FAILED (fst (xrGetSystem rt (now s))) then (Inl RuntimeQueryError, log_call XrGetSystem s)
       else if m_gpu_ctx s2 = nullptr then (Inl ConfigurationError_NoContext, s2)
       else if \<not> fst (checkVersionRequirements binding)
         then (Inl (CapabilityError (snd (checkVersionRequirements binding))), s3)
       else if XR_FAILED (fst (xrCreateSession rt (now s4)))
         then (Inl SessionCreateError, log_call XrCreateSession s4)
       else case prepareDrawing rt s5 of
              (Inl e, s6) \<Rightarrow> (Inl e, s6)
            | (Inr _, s6) \<Rightarrow> create_reference_space rt s6)"
    by (simp add: start_def initSystem_def bindGraphicsContext_def Some Let_def split_beta
          s1_def s2_def s3_def s4_def s5_def binding_def)
  have keep: "swapchains (m_oxr s5) = swapchains (m_oxr s)"
    "swapchain_images (m_oxr s5) = swapchain_images (m_oxr s)"
    "swapchains (m_oxr s3) = swapchains (m_oxr s)" "swapchains (m_oxr s2) = swapchains (m_oxr s)"
    "m_gpu_ctx s5 = bind_fn (getGraphicsBindingType ctx)" "m_gpu_ctx s5 = m_gpu_ctx s2"
    by (simp_all add: s1_def s2_def s3_def s4_def s5_def)
  have trace: "calls s5 = calls s @ [XrGetSystem, GpuCtxBind, InitFromGhostContext (m_gpu_ctx s5),
                             XrCreateSession]"
    "swapchain_image_width (m_oxr s5) = swapchain_image_width (m_oxr s)"
    "swapchain_image_height (m_oxr s5) = swapchain_image_height (m_oxr s)"
    by (simp_all add: s1_def s2_def s3_def s4_def s5_def)
  consider (a) "XR_FAILED (fst (xrGetSystem rt (now s)))"
    | (b) "\<not> XR_FAILED (fst (xrGetSystem rt (now s)))" "m_gpu_ctx s2 = nullptr"
    | (c) "\<not> XR_FAILED (fst (xrGetSystem rt (now s)))" "m_gpu_ctx s2 \<noteq> nullptr"
          "\<not> fst (checkVersionRequirements binding)"
    | (d) "\<not> XR_FAILED (fst (xrGetSystem rt (now s)))" "m_gpu_ctx s2 \<noteq> nullptr"
          "fst (checkVersionRequirements binding)" "XR_FAILED (fst (xrCreateSession rt (now s4)))"
    | (e) "\<not> XR_FAILED (fst (xrGetSystem rt (now s)))" "m_gpu_ctx s2 \<noteq> nullptr"
          "fst (checkVersionRequirements binding)" "\<not> XR_FAILED (fst (xrCreateSession rt (now s4)))"
    by blast
  then show ?thesis
  proof cases
    case a
    with assms eq have "r = Inl RuntimeQueryError" "s' = log_call XrGetSystem s" by simp_all
    then show ?thesis using no_session by simp
  next
    case b
    with assms eq have "r = Inl ConfigurationError_NoContext" "s' = s2" by simp_all
    then show ?thesis using no_session keep by simp
  next
    case c
    with assms eq have "r = Inl (CapabilityError (snd (checkVersionRequirements binding)))" "s' = s3"
      by simp_all
    then show ?thesis using no_session keep by simp
  next
    case d
    with assms eq have "r = Inl SessionCreateError" "s' = log_call XrCreateSession s4" by simp_all
    then show ?thesis using no_session keep by (simp add: s4_def)
  next
    case e
    with assms eq have run: "(case prepareDrawing rt s5 of
              (Inl e, s6) \<Rightarrow> (Inl e, s6)
            | (Inr _, s6) \<Rightarrow> create_reference_space rt s6) = (r, s')" by simp
    show ?thesis
    proof (cases "prepareDrawing rt s5")
      case (Pair a s6)
      show ?thesis
      proof (cases a)
        case (Inl err)
        with Pair run have "r = Inl err" "prepareDrawing rt s5 = (Inl err, s')" by simp_all
        then show ?thesis using prepare_failed keep by blast
      next
        case (Inr u)
        with Pair run have "prepareDrawing rt s5 = (Inr (), s6)"
          "create_reference_space rt s6 = (r, s')" by simp_all
        moreover have "m_gpu_ctx s5 \<noteq> nullptr" using keep(6) e(2) by simp
        ultimately show ?thesis
          using prepared [OF Some keep(5) _ keep(1,2) _ _ trace] by blast
      qed
    qed
  qed
qed

lemma drawView_extent:
  assumes "drawView ctx rt swapchain view s = (Inr proj_layer_view, s')"
  shows "pv_extent proj_layer_view = (swapchain_image_width (m_oxr s), swapchain_image_height (m_oxr s))
    \<and> pv_swapchain proj_layer_view = swapchain"
  using assms
  by (auto simp: drawView_def Let_def split: prod.splits if_splits option.splits)

lemmas start_defs =
  start_def initSystem_def bindGraphicsContext_def prepareDrawing_def swapchain_create_def
  swapchain_images_create_def create_reference_space_def
  map_insert_def backend_chooseSwapchainFormat_def XR_FAILED_def
  XR_SWAPCHAIN_USAGE_SAMPLED_BIT_def XR_SWAPCHAIN_USAGE_COLOR_ATTACHMENT_BIT_def
  example_view_config_def log_call_def now_def Let_def int32_of_uint32_def

lemma example_binding_simps:
  "checkVersionRequirements example_binding = (True, [])"
  "chooseSwapchainFormat example_binding = backend_chooseSwapchainFormat [32856, 35907]"
  "createSwapchainImages example_binding 3 = [1, 2, 3]"
  by (simp_all add: example_binding_def upt_rec)

lemma enumerate_into_2: "enumerate_into (replicate 2 x) [a, b] = [a, b]"
  by (simp add: enumerate_into_def numeral_2_eq_2)

lemma resize_2: "resize [] 2 v = [v, v]"
  by (simp add: resize_def numeral_2_eq_2)

lemma example_start:
  "start example_context example_runtime VAMR_Session_new = (Inr (), started_session)"
  by (simp add: start_defs example_context_def example_runtime_def VAMR_Session_new_def
        OpenXRSessionData_new_def started_session_def example_binding_simps
        enumerate_into_2 resize_2)

lemma example_start_failing:
  "start example_context
     (example_runtime\<lparr>xrCreateReferenceSpace := (\<lambda>_. (XR_ERROR_RUNTIME_FAILURE, 0))\<rparr>)
     VAMR_Session_new
   = (Inl ReferenceSpaceError, started_session\<lparr>m_oxr := (m_oxr started_session)\<lparr>reference_space := 0\<rparr>\<rparr>)"
  by (simp add: start_defs example_context_def example_runtime_def VAMR_Session_new_def
        OpenXRSessionData_new_def started_session_def XR_ERROR_RUNTIME_FAILURE_def
        example_binding_simps enumerate_into_2 resize_2)

lemma two_sizes_start:
  "fst (start example_context two_sizes_runtime VAMR_Session_new) = Inr ()"
  "swapchains (m_oxr (snd (start example_context two_sizes_runtime VAMR_Session_new))) = [108, 113]"
  "created_swapchain_sizes (calls (snd (start example_context two_sizes_runtime VAMR_Session_new)))
     = [(640, 480), (800, 600)]"
  "swapchain_image_width (m_oxr (snd (start example_context two_sizes_runtime VAMR_Session_new))) = 800"
  "swapchain_image_height (m_oxr (snd (start example_context two_sizes_runtime VAMR_Session_new))) = 600"
  by (simp_all add: start_defs example_context_def example_runtime_def two_sizes_runtime_def
        VAMR_Session_new_def OpenXRSessionData_new_def example_binding_simps
        enumerate_into_2 resize_2)

text \<open>
  Claim C4, as stated, fails in its last part. A runtime that reports two views at every
  enumeration and answers every swapchain creation with a new handle may recommend 640 x 480
  for the first view and 800 x 600 for the second: \<open>start\<close> returns successfully, the first
  swapchain is created with 640 x 480 and the second with 800 x 600, and the session stores
  800 x 600 only.
\<close>

theorem session_prepared_after_start_counterexample:
  "fst (start example_context two_sizes_runtime VAMR_Session_new) = Inr ()
   \<and> swapchains (m_oxr (snd (start example_context two_sizes_runtime VAMR_Session_new)))
       = [108, 113]
   \<and> created_swapchain_sizes
         (calls (snd (start example_context two_sizes_runtime VAMR_Session_new)))
       = [(640, 480), (800, 600)]
   \<and> swapchain_image_width
         (m_oxr (snd (start example_context two_sizes_runtime VAMR_Session_new))) = 800
   \<and> swapchain_image_height
         (m_oxr (snd (start example_context two_sizes_runtime VAMR_Session_new))) = 600"
  by (simp add: two_sizes_start)

text \<open>
  Claim C4, amended. Let \<open>start\<close> on a new session return successfully, with a runtime that
  reports the view count \<open>n\<close> at every enumeration of the view configurations (2 for stereo)
  and never answers two swapchain creations with the same handle. Then there are \<open>n\<close>
  swapchain handles, \<open>n\<close> entries in the map from swapchains to images and \<open>n\<close> views; the
  map has exactly the listed swapchains as keys, each once, and maps each to a non-empty
  image list. Every swapchain is created with the size recommended for its own view, in
  the order of the views (the enumeration of the view configurations begins with call
  number 4 of such a start); the session stores one width and one height, those recommended
  for the last view, as 32-bit signed numbers, and every view drawn into any of the
  swapchains gets them as its extent. So all swapchains have the stored size when the
  runtime recommends one size for every view.
\<close>

theorem session_prepared_after_start:
  assumes "start ctx rt VAMR_Session_new = (Inr (), s)"
    and "\<forall>t. fst (snd (xrEnumerateViewConfigurationViews rt t)) = n"
    and "inj (\<lambda>t. snd (xrCreateSwapchain rt t))"
  shows "length (swapchains (m_oxr s)) = n
    \<and> length (swapchain_images (m_oxr s)) = n
    \<and> length (views (m_oxr s)) = n
    \<and> map fst (swapchain_images (m_oxr s)) = swapchains (m_oxr s)
    \<and> distinct (swapchains (m_oxr s))
    \<and> (\<forall>swapchain \<in> set (swapchains (m_oxr s)).
          \<exists>images. map_of (swapchain_images (m_oxr s)) swapchain = Some images \<and> images \<noteq> [])
    \<and> (\<forall>swapchain \<in> set (swapchains (m_oxr s)). \<forall>rt' view proj_layer_view s'.
          drawView ctx rt' swapchain view s = (Inr proj_layer_view, s') \<longrightarrow>
          pv_extent proj_layer_view
            = (swapchain_image_width (m_oxr s), swapchain_image_height (m_oxr s)))
    \<and> length (enumerated_view_configs rt 4) = n
    \<and> created_swapchain_sizes (calls s) = map recommended_size (enumerated_view_configs rt 4)
    \<and> (n \<noteq> 0 \<longrightarrow>
          swapchain_image_width (m_oxr s)
            = int32_of_uint32 (recommendedImageRectWidth (last (enumerated_view_configs rt 4)))
          \<and> swapchain_image_height (m_oxr s)
            = int32_of_uint32 (recommendedImageRectHeight (last (enumerated_view_configs rt 4))))
    \<and> (n \<noteq> 0 \<and> (\<forall>view \<in> set (enumerated_view_configs rt 4). recommended_size view = (w, h)) \<longrightarrow>
          (\<forall>size \<in> set (created_swapchain_sizes (calls s)). size = (w, h))
          \<and> swapchain_image_width (m_oxr s) = int32_of_uint32 w
          \<and> swapchain_image_height (m_oxr s) = int32_of_uint32 h)"
  using assms(1)
proof (cases rule: start_cases)
  case (prepared bind_fn s5 s6)
  have "swapchains (m_oxr s5) = []" "swapchain_images (m_oxr s5) = []"
    using prepared(4,5) by (simp_all add: VAMR_Session_new_def OpenXRSessionData_new_def)
  from prepareDrawing_Inr [OF assms(3,2) prepared(6) this]
  have p: "swapchains_prepared rt s6" and n: "length (swapchains (m_oxr s6)) = n"
    and v: "length (views (m_oxr s6)) = n" by simp_all
  from create_reference_space_keeps [OF prepared(7)]
  have same: "swapchains (m_oxr s) = swapchains (m_oxr s6)"
    "swapchain_images (m_oxr s) = swapchain_images (m_oxr s6)"
    "views (m_oxr s) = views (m_oxr s6)"
    and dims: "swapchain_image_width (m_oxr s) = swapchain_image_width (m_oxr s6)"
    "swapchain_image_height (m_oxr s) = swapchain_image_height (m_oxr s6)"
    and trace: "calls s = calls s6 @ [XrCreateReferenceSpace (session (m_oxr s6))]"
    by simp_all
  have keys: "map fst (swapchain_images (m_oxr s)) = swapchains (m_oxr s)"
    and dist: "distinct (swapchains (m_oxr s))"
    and nonempty: "\<forall>entry \<in> set (swapchain_images (m_oxr s)). snd entry \<noteq> []"
    using p by (simp_all add: swapchains_prepared_def same)
  have len: "length (swapchain_images (m_oxr s)) = n"
    using keys n same by (metis length_map)
  have imgs: "\<exists>images. map_of (swapchain_images (m_oxr s)) swapchain = Some images \<and> images \<noteq> []"
    if "swapchain \<in> set (swapchains (m_oxr s))" for swapchain
  proof -
    from that keys have "swapchain \<in> fst ` set (swapchain_images (m_oxr s))"
      by (metis set_map)
    then obtain images where "map_of (swapchain_images (m_oxr s)) swapchain = Some images"
      by (metis map_of_eq_None_iff not_Some_eq)
    moreover from this have "(swapchain, images) \<in> set (swapchain_images (m_oxr s))"
      by (rule map_of_SomeD)
    with nonempty have "images \<noteq> []" by fastforce
    ultimately show ?thesis by blast
  qed
  let ?configs = "enumerated_view_configs rt 4"
  have now5: "now s5 = 4"
    using prepared(8) by (simp add: now_def VAMR_Session_new_def)
  have count: "length ?configs = n"
    using assms(2) by (simp add: enumerated_view_configs_def enumerate_into_def)
  have "created_swapchain_sizes (calls s5) = []"
    using prepared(8) by (simp add: VAMR_Session_new_def)
  with prepareDrawing_sizes [OF prepared(6)]
  have sizes6: "created_swapchain_sizes (calls s6) = map recommended_size ?configs"
    and dims6: "(swapchain_image_width (m_oxr s6), swapchain_image_height (m_oxr s6))
       = (if ?configs = []
          then (swapchain_image_width (m_oxr s5), swapchain_image_height (m_oxr s5))
          else (int32_of_uint32 (recommendedImageRectWidth (last ?configs)),
                int32_of_uint32 (recommendedImageRectHeight (last ?configs))))"
    by (simp_all add: now5)
  have sizes: "created_swapchain_sizes (calls s) = map recommended_size ?configs"
    using sizes6 by (simp add: trace created_swapchain_sizes_append)
  have stored: "swapchain_image_width (m_oxr s)
            = int32_of_uint32 (recommendedImageRectWidth (last ?configs))
          \<and> swapchain_image_height (m_oxr s)
            = int32_of_uint32 (recommendedImageRectHeight (last ?configs))" if "n \<noteq> 0"
  proof -
    from that count have "?configs \<noteq> []" by auto
    with dims6 show ?thesis by (simp add: dims)
  qed
  have shared: "(\<forall>size \<in> set (created_swapchain_sizes (calls s)). size = (w, h))
          \<and> swapchain_image_width (m_oxr s) = int32_of_uint32 w
          \<and> swapchain_image_height (m_oxr s) = int32_of_uint32 h"
    if "n \<noteq> 0" and all: "\<forall>view \<in> set ?configs. recommended_size view = (w, h)"
  proof -
    from that(1) count have ne: "?configs \<noteq> []" by auto
    then have "last ?configs \<in> set ?configs" by simp
    with all have "recommended_size (last ?configs) = (w, h)" by blast
    then have "recommendedImageRectWidth (last ?configs) = w"
      "recommendedImageRectHeight (last ?configs) = h"
      by (simp_all add: recommended_size_def)
    with stored [OF that(1)] all show ?thesis by (auto simp: sizes)
  qed
  have extent: "\<forall>swapchain \<in> set (swapchains (m_oxr s)). \<forall>rt' view proj_layer_view s'.
          drawView ctx rt' swapchain view s = (Inr proj_layer_view, s') \<longrightarrow>
          pv_extent proj_layer_view
            = (swapchain_image_width (m_oxr s), swapchain_image_height (m_oxr s))"
    using drawView_extent by blast
  have counts: "length (swapchains (m_oxr s)) = n" "length (views (m_oxr s)) = n"
    using n v by (simp_all add: same)
  show ?thesis
    using counts len keys dist imgs extent count sizes stored shared by blast
qed simp_all

theorem session_prepared_after_start_witness:
  "start example_context example_runtime VAMR_Session_new = (Inr (), started_session)
   \<and> length (swapchains (m_oxr started_session)) = 2
   \<and> length (swapchain_images (m_oxr started_session)) = 2
   \<and> length (views (m_oxr started_session)) = 2
   \<and> map_of (swapchain_images (m_oxr started_session)) 108 = Some [1, 2, 3]
   \<and> map_of (swapchain_images (m_oxr started_session)) 113 = Some [1, 2, 3]
   \<and> created_swapchain_sizes (calls started_session) = [(1440, 1600), (1440, 1600)]
   \<and> swapchain_image_width (m_oxr started_session) = 1440
   \<and> swapchain_image_height (m_oxr started_session) = 1600"
proof -
  have count: "\<forall>t. fst (snd (xrEnumerateViewConfigurationViews example_runtime t)) = 2"
    by (simp add: example_runtime_def)
  have fresh: "inj (\<lambda>t. snd (xrCreateSwapchain example_runtime t))"
    by (simp add: example_runtime_def inj_def)
  show ?thesis
    using session_prepared_after_start [OF example_start count fresh] example_start
    by (simp add: started_session_def)
qed

subsection \<open>Destruction\<close>

text \<open>
  Claim C5. The calls of the destructor are, in this order: the unbind callback (when one
  is registered), the destruction of every listed swapchain, the destruction of the
  reference space if its handle is not null, the destruction of the session if its handle
  is not null. For a session whose \<open>start\<close> failed at any step, with a runtime that answers
  a successful swapchain creation with a handle that is not null, no destroy call of the
  destructor is on a null swapchain, reference space or session handle.
\<close>

theorem destructor_guards:
  "drop (length (calls s0)) (calls (destructor ctx s0))
     = (if gpu_ctx_unbind_fn ctx then [GpuCtxUnbind (m_gpu_ctx s0)] else [])
       @ map XrDestroySwapchain (swapchains (m_oxr s0))
       @ (if reference_space (m_oxr s0) \<noteq> XR_NULL_HANDLE
          then [XrDestroySpace (reference_space (m_oxr s0))] else [])
       @ (if session (m_oxr s0) \<noteq> XR_NULL_HANDLE
          then [XrDestroySession (session (m_oxr s0))] else [])
   \<and> (start ctx rt VAMR_Session_new = (Inl e, s)
        \<and> (\<forall>t. \<not> XR_FAILED (fst (xrCreateSwapchain rt t))
                 \<longrightarrow> snd (xrCreateSwapchain rt t) \<noteq> XR_NULL_HANDLE)
      \<longrightarrow> XrDestroySwapchain XR_NULL_HANDLE \<notin> set (drop (length (calls s)) (calls (destructor ctx s)))
        \<and> XrDestroySpace XR_NULL_HANDLE \<notin> set (drop (length (calls s)) (calls (destructor ctx s)))
        \<and> XrDestroySession XR_NULL_HANDLE \<notin> set (drop (length (calls s)) (calls (destructor ctx s))))"
proof -
  have order: "drop (length (calls t)) (calls (destructor ctx t))
     = (if gpu_ctx_unbind_fn ctx then [GpuCtxUnbind (m_gpu_ctx t)] else [])
       @ map XrDestroySwapchain (swapchains (m_oxr t))
       @ (if reference_space (m_oxr t) \<noteq> XR_NULL_HANDLE
          then [XrDestroySpace (reference_space (m_oxr t))] else [])
       @ (if session (m_oxr t) \<noteq> XR_NULL_HANDLE
          then [XrDestroySession (session (m_oxr t))] else [])" for t
    by (simp add: destructor_def unbindGraphicsContext_def Let_def log_call_def)
  have guarded: "XrDestroySwapchain XR_NULL_HANDLE \<notin> set (drop (length (calls s)) (calls (destructor ctx s)))
        \<and> XrDestroySpace XR_NULL_HANDLE \<notin> set (drop (length (calls s)) (calls (destructor ctx s)))
        \<and> XrDestroySession XR_NULL_HANDLE \<notin> set (drop (length (calls s)) (calls (destructor ctx s)))"
    if run: "start ctx rt VAMR_Session_new = (Inl e, s)"
      and conf: "\<forall>t. \<not> XR_FAILED (fst (xrCreateSwapchain rt t))
                 \<longrightarrow> snd (xrCreateSwapchain rt t) \<noteq> XR_NULL_HANDLE"
  proof -
    have new: "swapchains (m_oxr VAMR_Session_new) = []"
      by (simp add: VAMR_Session_new_def OpenXRSessionData_new_def)
    from run have "XR_NULL_HANDLE \<notin> set (swapchains (m_oxr s))"
    proof (cases rule: start_cases)
      case (no_session e)
      then show ?thesis by (simp add: new)
    next
      case (prepare_failed e s5)
      from prepareDrawing_no_null [OF conf prepare_failed(3)] prepare_failed(2)
      show ?thesis by (simp add: new)
    next
      case (prepared bind_fn s5 s6)
      from prepareDrawing_no_null [OF conf prepared(6)] prepared(4)
      have "XR_NULL_HANDLE \<notin> set (swapchains (m_oxr s6))" by (simp add: new)
      with create_reference_space_keeps [OF prepared(7)] show ?thesis by simp
    qed
    then show ?thesis by (auto simp: order)
  qed
  show ?thesis using order guarded by blast
qed

theorem destructor_guards_witness:
  "start example_context
     (example_runtime\<lparr>xrCreateReferenceSpace := (\<lambda>_. (XR_ERROR_RUNTIME_FAILURE, 0))\<rparr>)
     VAMR_Session_new
   = (Inl ReferenceSpaceError, started_session\<lparr>m_oxr := (m_oxr started_session)\<lparr>reference_space := 0\<rparr>\<rparr>)
   \<and> drop (length (calls started_session))
        (calls (destructor example_context
           (started_session\<lparr>m_oxr := (m_oxr started_session)\<lparr>reference_space := 0\<rparr>\<rparr>)))
     = [GpuCtxUnbind 7, XrDestroySwapchain 108, XrDestroySwapchain 113, XrDestroySession 5]"
proof -
  have conf: "\<forall>t. \<not> XR_FAILED (fst (xrCreateSwapchain
        (example_runtime\<lparr>xrCreateReferenceSpace := (\<lambda>_. (XR_ERROR_RUNTIME_FAILURE, 0))\<rparr>) t))
      \<longrightarrow> snd (xrCreateSwapchain
        (example_runtime\<lparr>xrCreateReferenceSpace := (\<lambda>_. (XR_ERROR_RUNTIME_FAILURE, 0))\<rparr>) t) \<noteq> XR_NULL_HANDLE"
    by (simp add: example_runtime_def)
  show ?thesis
    using destructor_guards [of
        "started_session\<lparr>m_oxr := (m_oxr started_session)\<lparr>reference_space := 0\<rparr>\<rparr>"
        example_context
        "example_runtime\<lparr>xrCreateReferenceSpace := (\<lambda>_. (XR_ERROR_RUNTIME_FAILURE, 0))\<rparr>"
        ReferenceSpaceError
        "started_session\<lparr>m_oxr := (m_oxr started_session)\<lparr>reference_space := 0\<rparr>\<rparr>"]
      example_start_failing conf
    by (simp add: started_session_def example_context_def)
qed

text \<open>
  Claim C9. After a successful \<open>start\<close> the stored graphics context is the handle the bind
  callback returned, and it is not null. With an unbind callback registered, over \<open>end\<close> and
  the destruction that follows the callback is invoked with this handle exactly once (and
  never with another handle that is not null), and the stored handle is null afterwards.
  When the runtime ends the session, the one invocation is made by \<open>end\<close>, which leaves the
  stored handle null, and the destructor invokes the callback a second time with the null
  handle; when ending fails, \<open>end\<close> throws before it unbinds and the one invocation is the
  destructor's.
\<close>

theorem graphics_context_released_once:
  assumes "start ctx rt VAMR_Session_new = (Inr (), s1)"
    and "gpu_ctx_unbind_fn ctx"
    and "end_session ctx rt s1 = (r, s2)"
  shows "m_gpu_ctx s1 \<noteq> nullptr
    \<and> (\<exists>bind_fn. gpu_ctx_bind_fn ctx = Some bind_fn
          \<and> m_gpu_ctx s1 = bind_fn (getGraphicsBindingType ctx))
    \<and> filter (\<lambda>gpu_ctx. gpu_ctx \<noteq> nullptr)
        (unbind_calls (drop (length (calls s1)) (calls (destructor ctx s2)))) = [m_gpu_ctx s1]
    \<and> unbind_calls (drop (length (calls s1)) (calls (destructor ctx s2)))
        = (if XR_FAILED (xrEndSession rt (now s1)) then [m_gpu_ctx s1] else [m_gpu_ctx s1, nullptr])
    \<and> m_gpu_ctx (destructor ctx s2) = nullptr
    \<and> (if XR_FAILED (xrEndSession rt (now s1))
        then r = Inl SessionEndError \<and> m_gpu_ctx s2 = m_gpu_ctx s1
           \<and> unbind_calls (drop (length (calls s1)) (calls s2)) = []
        else r = Inr () \<and> m_gpu_ctx s2 = nullptr
           \<and> unbind_calls (drop (length (calls s1)) (calls s2)) = [m_gpu_ctx s1])"
  using assms(1)
proof (cases rule: start_cases)
  case (prepared bind_fn s5 s6)
  from prepareDrawing_keeps [OF prepared(6)] create_reference_space_keeps [OF prepared(7)]
  have ctx: "m_gpu_ctx s1 = m_gpu_ctx s5" by simp
  have bound: "m_gpu_ctx s1 \<noteq> nullptr" "m_gpu_ctx s1 = bind_fn (getGraphicsBindingType ctx)"
    using prepared(2,3) ctx by simp_all
  have unbind_destroy: "unbind_calls (map XrDestroySwapchain hs @ cs) = unbind_calls cs"
    "unbind_calls (map XrDestroySwapchain hs) = []" for hs cs
    by (induction hs) simp_all
  show ?thesis
  proof (cases "XR_FAILED (xrEndSession rt (now s1))")
    case True
    with assms(3) have "r = Inl SessionEndError"
      "s2 = log_call (XrEndSession (session (m_oxr s1))) s1"
      by (simp_all add: end_session_def Let_def)
    then show ?thesis
      using True bound prepared(1) assms(2)
      by (simp add: destructor_def unbindGraphicsContext_def Let_def log_call_def unbind_destroy)
  next
    case False
    with assms(3) have "r = Inr ()"
      "s2 = (unbindGraphicsContext ctx (log_call (XrEndSession (session (m_oxr s1))) s1))\<lparr>m_draw_info := None\<rparr>"
      by (simp_all add: end_session_def Let_def)
    then show ?thesis
      using False bound prepared(1) assms(2)
      by (simp add: destructor_def unbindGraphicsContext_def Let_def log_call_def unbind_destroy)
  qed
qed simp_all

theorem graphics_context_released_once_witness:
  "start example_context example_runtime VAMR_Session_new = (Inr (), started_session)
   \<and> fst (end_session example_context example_runtime started_session) = Inr ()
   \<and> unbind_calls (drop (length (calls started_session))
         (calls (destructor example_context
            (snd (end_session example_context example_runtime started_session))))) = [7, 0]
   \<and> m_gpu_ctx (destructor example_context
            (snd (end_session example_context example_runtime started_session))) = nullptr"
proof -
  have unbind: "gpu_ctx_unbind_fn example_context"
    by (simp add: example_context_def)
  have ok: "\<not> XR_FAILED (xrEndSession example_runtime (now started_session))"
    by (simp add: example_runtime_def XR_FAILED_def)
  have ctx: "m_gpu_ctx started_session = 7"
    by (simp add: started_session_def)
  show ?thesis
    using graphics_context_released_once [OF example_start unbind surjective_pairing]
      example_start ok
    by (simp add: ctx)
qed

end
